theory Spec2Isabelle
  imports Main "HOL-Library.Sublist"
begin

section \<open>The Lo interpreter driver (main.cpp)\<close>

text \<open>
  This theory embeds the driver of the Lo interpreter, \<^verbatim>\<open>main.cpp\<close>: the statement
  patterns, the handlers \<^verbatim>\<open>processLoc\<close>, \<^verbatim>\<open>processAssign\<close>, \<^verbatim>\<open>processInput\<close>,
  \<^verbatim>\<open>processPrint\<close>, and the line loop of \<^verbatim>\<open>main\<close> with its function collection mode and
  its stack of conditional frames. Strings are \<^typ>\<open>string\<close>, the two tables of the
  context are maps, the console is a record of the three streams, and every
  \<^verbatim>\<open>exit\<close> or early \<^verbatim>\<open>return\<close> is a value on the left of a sum.
\<close>

subsection \<open>Characters and strings\<close>

text \<open>The character classes of the "C" locale, as \<^verbatim>\<open>std::regex\<close> and \<^verbatim>\<open>strtoll\<close> use them.\<close>

definition isspace :: "char \<Rightarrow> bool" where
  "isspace c = (let n = (of_char c :: nat) in n = 32 \<or> (9 \<le> n \<and> n \<le> 13))"

definition isdigit :: "char \<Rightarrow> bool" where
  "isdigit c = (let n = (of_char c :: nat) in 48 \<le> n \<and> n \<le> 57)"

text \<open>\<^verbatim>\<open>\w\<close>: letters, digits and the underscore.\<close>

definition isword :: "char \<Rightarrow> bool" where
  "isword c = (let n = (of_char c :: nat) in
     (48 \<le> n \<and> n \<le> 57) \<or> (65 \<le> n \<and> n \<le> 90) \<or> (97 \<le> n \<and> n \<le> 122) \<or> n = 95)"

text \<open>\<^verbatim>\<open>.\<close>: every character but the line terminators.\<close>

definition anychar :: "char \<Rightarrow> bool" where
  "anychar c = (c \<noteq> CHR 0x0A \<and> c \<noteq> CHR 0x0D)"

definition notquote :: "char \<Rightarrow> bool" where
  "notquote c = (c \<noteq> CHR 0x22)"

definition notparen :: "char \<Rightarrow> bool" where
  "notparen c = (c \<noteq> CHR '')'')"

definition endl :: string where
  "endl = [CHR 0x0A]"

text \<open>
  Modelled from the spec: \<^verbatim>\<open>trim\<close> is declared in \<^verbatim>\<open>src/h/utils.h\<close>, which is not part of
  the source at hand. The spec calls it "basic string trimming": the white space at both
  ends of the string is removed.
\<close>

definition trim :: "string \<Rightarrow> string" where
  "trim s = rev (dropWhile isspace (rev (dropWhile isspace s)))"

text \<open>
  The loop \<^verbatim>\<open>while (std::getline(ss, item, d)) ...\<close> over a string stream: each round
  extracts the characters up to the next delimiter and discards the delimiter; the loop
  ends when nothing is left, so a delimiter at the very end opens no further item.
\<close>

function getlines :: "char \<Rightarrow> string \<Rightarrow> string list" where
  "getlines d s =
     (if s = [] then []
      else (let item = takeWhile (\<lambda>c. c \<noteq> d) s
            in item # getlines d (drop (Suc (length item)) s)))"
  by pat_completeness auto

termination
  by (relation "measure (\<lambda>(d, s). length s)") auto

declare getlines.simps [simp del]

text \<open>\<^verbatim>\<open>operator<<\<close> on a line number: its decimal digits.\<close>

function to_string :: "nat \<Rightarrow> string" where
  "to_string n =
     (if n < 10 then [''0123456789'' ! n]
      else to_string (n div 10) @ [''0123456789'' ! (n mod 10)])"
  by pat_completeness auto

termination
  by (relation "measure (\<lambda>n. n)") auto

declare to_string.simps [simp del]

definition startsWith :: "string \<Rightarrow> string \<Rightarrow> bool" where
  "startsWith s p = (length s \<ge> length p \<and> take (length p) s = p)"

text \<open>
  The handlers strip one layer of double quotes with the same three lines each time:
  \<^verbatim>\<open>if (s.size() >= 2 && s.front() == '"' && s.back() == '"') s = s.substr(1, s.size() - 2)\<close>.
\<close>

definition unquote :: "string \<Rightarrow> string" where
  "unquote s =
     (if length s \<ge> 2 \<and> hd s = CHR 0x22 \<and> last s = CHR 0x22
      then take (length s - 2) (drop 1 s) else s)"

text \<open>
  \<^verbatim>\<open>std::stoll\<close> in base 10: white space is skipped, one sign is accepted, then the
  longest run of digits is read and whatever follows is ignored. It throws when there
  is no digit or when the value does not fit 64 bits; \<open>None\<close> stands for both.
\<close>

definition digits_val :: "string \<Rightarrow> int" where
  "digits_val ds = foldl (\<lambda>a c. 10 * a + (int (of_char c) - 48)) 0 ds"

definition stoll :: "string \<Rightarrow> int option" where
  "stoll s =
     (let s1 = dropWhile isspace s;
          neg = (s1 \<noteq> [] \<and> hd s1 = CHR ''-'');
          s2 = (if s1 \<noteq> [] \<and> (hd s1 = CHR ''-'' \<or> hd s1 = CHR ''+'') then tl s1 else s1);
          ds = takeWhile isdigit s2;
          v = (if neg then - digits_val ds else digits_val ds)
      in if ds = [] then None
         else if v < - (2 ^ 63) \<or> 2 ^ 63 - 1 < v then None
         else Some v)"

subsection \<open>Regular expressions\<close>

text \<open>
  The statement patterns are \<^verbatim>\<open>std::regex\<close> objects of the default (ECMAScript) grammar,
  used through \<^verbatim>\<open>std::regex_match\<close> only. The matcher below is the backtracking one:
  it lists every way a pattern can consume a prefix of the input, in the order of
  preference (the left alternative first, one more round of a star first), together with
  the groups captured on the way. \<^verbatim>\<open>regex_match\<close> takes the first way that consumes the
  whole input. Since the whole input has to be matched, the anchors \<^verbatim>\<open>^\<close> and \<^verbatim>\<open>$\<close> at
  the two ends of a pattern hold where they stand and are not represented.
\<close>

datatype rx =
    Str string
  | Cls "char \<Rightarrow> bool"
  | Seq rx rx
  | Alt rx rx
  | Star rx
  | Grp nat rx

type_synonym smatch = "(nat \<times> string) list"

function (sequential) rxm :: "rx \<Rightarrow> string \<Rightarrow> smatch \<Rightarrow> (string \<times> smatch) list" where
  "rxm (Str p) s caps = (if take (length p) s = p then [(drop (length p) s, caps)] else [])"
| "rxm (Cls P) s caps = (case s of [] \<Rightarrow> [] | c # cs \<Rightarrow> if P c then [(cs, caps)] else [])"
| "rxm (Seq a b) s caps = concat (map (\<lambda>(s', caps'). rxm b s' caps') (rxm a s caps))"
| "rxm (Alt a b) s caps = rxm a s caps @ rxm b s caps"
| "rxm (Star a) s caps =
     concat (map (\<lambda>(s', caps'). if length s' < length s then rxm (Star a) s' caps' else [])
                 (rxm a s caps)) @ [(s, caps)]"
| "rxm (Grp k a) s caps =
     map (\<lambda>(s', caps'). (s', (k, take (length s - length s') s) # caps')) (rxm a s caps)"
  by pat_completeness auto

termination
  by (relation "measures [\<lambda>(r, s, c). size r, \<lambda>(r, s, c). length s]") auto

definition regex_match :: "rx \<Rightarrow> string \<Rightarrow> smatch option" where
  "regex_match r s =
     (case filter (\<lambda>(s', caps). s' = []) (rxm r s []) of
        [] \<Rightarrow> None
      | (s', caps) # _ \<Rightarrow> Some caps)"

text \<open>\<^verbatim>\<open>m[k]\<close> read as a string (empty when the group took no part) and \<^verbatim>\<open>m[k].matched\<close>.\<close>

definition grp :: "smatch \<Rightarrow> nat \<Rightarrow> string" where
  "grp m k = (case map_of m k of None \<Rightarrow> [] | Some s \<Rightarrow> s)"

definition sub_matched :: "smatch \<Rightarrow> nat \<Rightarrow> bool" where
  "sub_matched m k = (case map_of m k of None \<Rightarrow> False | Some s \<Rightarrow> True)"

abbreviation Plus :: "rx \<Rightarrow> rx" where
  "Plus r \<equiv> Seq r (Star r)"

abbreviation spaces :: rx where
  "spaces \<equiv> Star (Cls isspace)"

abbreviation word :: rx where
  "word \<equiv> Plus (Cls isword)"

text \<open>The parts of a pattern written one after the other.\<close>

fun cat :: "rx list \<Rightarrow> rx" where
  "cat [] = Str []"
| "cat [r] = r"
| "cat (r # rs) = Seq r (cat rs)"

text \<open>\<^verbatim>\<open>^loc\s+(\w+)\s*=\s*(int|str|bool|arr)\((.*)\)\s*!$\<close>\<close>

definition locRegex :: rx where
  "locRegex =
     cat [Str ''loc'', Plus (Cls isspace), Grp 1 word, spaces, Str ''='', spaces,
          Grp 2 (Alt (Str ''int'') (Alt (Str ''str'') (Alt (Str ''bool'') (Str ''arr'')))),
          Str ''('', Grp 3 (Star (Cls anychar)), Str '')'', spaces, Str ''!'']"

text \<open>\<^verbatim>\<open>^(\w+)\s*=\s*(.+)\!$\<close>\<close>

definition assignRegex :: rx where
  "assignRegex =
     cat [Grp 1 word, spaces, Str ''='', spaces, Grp 2 (Plus (Cls anychar)), Str ''!'']"

text \<open>\<^verbatim>\<open>^(\w+)\s*=\s*input--\s*(i|str)-\s*\"([^\"]*)\"!$\<close>\<close>

definition inputRegex :: rx where
  "inputRegex =
     cat [Grp 1 word, spaces, Str ''='', spaces, Str ''input--'', spaces,
          Grp 2 (Alt (Str ''i'') (Str ''str'')), Str ''-'', spaces,
          Str [CHR 0x22], Grp 3 (Star (Cls notquote)), Str [CHR 0x22], Str ''!'']"

text \<open>\<^verbatim>\<open>^funS\s+(\w+)\s+(\w+)\(([^)]*)\):\s*\{$\<close>\<close>

definition funRegex :: rx where
  "funRegex =
     cat [Str ''funS'', Plus (Cls isspace), Grp 1 word, Plus (Cls isspace), Grp 2 word,
          Str ''('', Grp 3 (Star (Cls notparen)), Str '')'', Str '':'', spaces, Str ''{'']"

text \<open>
  \<^verbatim>\<open>^print--\s*(?:(\"([^\"]*)\")|(\w+)|f-(\w+)\(([^)]*)\))!$\<close>;
  groups: 2 the literal text, 3 a variable, 4 a function name, 5 its arguments.
\<close>

definition printRegex :: rx where
  "printRegex =
     cat [Str ''print--'', spaces,
          Alt (Grp 1 (cat [Str [CHR 0x22], Grp 2 (Star (Cls notquote)), Str [CHR 0x22]]))
         (Alt (Grp 3 word)
              (cat [Str ''f-'', Grp 4 word, Str ''('', Grp 5 (Star (Cls notparen)), Str '')''])),
          Str ''!'']"

text \<open>\<^verbatim>\<open>if-\s*(\w+)\s*(>>|<<|===)\s*(\w+)\s*the\<close>\<close>

definition ifRe :: rx where
  "ifRe =
     cat [Str ''if-'', spaces, Grp 1 word, spaces,
          Grp 2 (Alt (Str ''>>'') (Alt (Str ''<<'') (Str ''===''))),
          spaces, Grp 3 word, spaces, Str ''the'']"

text \<open>\<^verbatim>\<open>elif-\s*(\w+)\s*(>>|<<|===)\s*(\w+)\s*the\<close>\<close>

definition elifRe :: rx where
  "elifRe =
     cat [Str ''elif-'', spaces, Grp 1 word, spaces,
          Grp 2 (Alt (Str ''>>'') (Alt (Str ''<<'') (Str ''===''))),
          spaces, Grp 3 word, spaces, Str ''the'']"

subsection \<open>The data of the interpreter\<close>

text \<open>
  Modelled from the spec: \<^verbatim>\<open>Variable\<close> and \<^verbatim>\<open>FunctionDef\<close> are declared in
  \<^verbatim>\<open>src/h/variable.h\<close> and \<^verbatim>\<open>src/h/function.h\<close>, which are not part of the source at hand.
  The data model of the spec gives a variable a type and a value, both text, and a
  function a return type, its parameters in order (a declared type or \<^verbatim>\<open>var\<close>, and a
  name) and its body lines in order. These are the members \<^verbatim>\<open>main.cpp\<close> reads and writes:
  \<^verbatim>\<open>{type, value}\<close>, and \<^verbatim>\<open>returnType\<close>, \<^verbatim>\<open>params\<close>, \<^verbatim>\<open>body\<close>.
\<close>

record Variable =
  var_type :: string
  var_value :: string

record FunctionDef =
  returnType :: string
  params :: "(string \<times> string) list"
  body :: "string list"

record Context =
  "functions" :: "string \<rightharpoonup> FunctionDef"
  variables :: "string \<rightharpoonup> Variable"

record IfState =
  matched :: bool
  skipping :: bool

text \<open>The console: the lines still to be read from standard input, and what was written.\<close>

record IO =
  cin :: "string list"
  cout :: string
  cerr :: string

text \<open>
  How a run ends before the last line: \<^verbatim>\<open>exit(code)\<close> or \<^verbatim>\<open>return code\<close> with the
  console as it then is, or a failure inside one of the helpers that are not at hand
  (how they report it is not visible from \<^verbatim>\<open>main.cpp\<close>).
\<close>

datatype halt = Exit int IO | HelperFailure

text \<open>
  The evaluator and the executor (\<^verbatim>\<open>evaluator.h\<close>, \<^verbatim>\<open>executor.h\<close>) are not at hand and are
  parameters of the model, with the arguments \<^verbatim>\<open>main.cpp\<close> passes them. \<open>None\<close> is a
  failure of the helper. The executor is handed the variable table and runs statements
  that print and read, so it returns the table and the console with its result.
\<close>

record externs =
  evalExpression :: "string \<Rightarrow> string option"
  evaluateCondition :: "(string \<rightharpoonup> Variable) \<Rightarrow> string \<Rightarrow> string \<Rightarrow> string \<Rightarrow> bool option"
  executeFunction :: "FunctionDef \<Rightarrow> string list \<Rightarrow> (string \<rightharpoonup> FunctionDef) \<Rightarrow>
     (string \<rightharpoonup> Variable) \<Rightarrow> IO \<Rightarrow> (string \<times> (string \<rightharpoonup> Variable) \<times> IO) option"

definition errorAndExit :: "nat \<Rightarrow> string \<Rightarrow> IO \<Rightarrow> halt" where
  "errorAndExit lineno msg w =
     Exit 1 (w\<lparr>cerr := cerr w @ ''Error at line '' @ to_string lineno @ '': '' @ msg @ endl\<rparr>)"

definition setVar :: "Context \<Rightarrow> string \<Rightarrow> string \<Rightarrow> string \<Rightarrow> Context" where
  "setVar cx name ty val =
     cx\<lparr>variables := (variables cx)(name \<mapsto> \<lparr>var_type = ty, var_value = val\<rparr>)\<rparr>"

subsection \<open>The statement handlers\<close>

text \<open>The loop that joins the elements of an array: a comma before each but the first.\<close>

fun joinFrom :: "nat \<Rightarrow> string list \<Rightarrow> string" where
  "joinFrom i [] = []"
| "joinFrom i (e # es) = (if i \<noteq> 0 then '','' else []) @ e @ joinFrom (Suc i) es"

definition processLoc ::
  "externs \<Rightarrow> Context \<Rightarrow> smatch \<Rightarrow> nat \<Rightarrow> IO \<Rightarrow> halt + Context \<times> IO" where
  "processLoc h cx m lineno w =
     (let name = grp m 1; ty = grp m 2; raw = trim (grp m 3) in
      if ty = ''str'' then Inr (setVar cx name ''str'' (unquote raw), w)
      else if ty = ''int'' then
        (case evalExpression h raw of
           None \<Rightarrow> Inl HelperFailure
         | Some val \<Rightarrow> Inr (setVar cx name ''int'' val, w))
      else if ty = ''bool'' then
        (let val = trim raw in
         if val = ''true'' \<or> val = ''1'' then Inr (setVar cx name ''bool'' ''true'', w)
         else if val = ''false'' \<or> val = ''0'' then Inr (setVar cx name ''bool'' ''false'', w)
         else Inl (errorAndExit lineno (''Invalid bool value: '' @ val) w))
      else if ty = ''arr'' then
        (let rawList = trim raw;
             elements = map (\<lambda>item. unquote (trim item)) (getlines CHR '','' rawList)
         in Inr (setVar cx name ''arr'' (joinFrom 0 elements), w))
      else Inl (errorAndExit lineno (''Unknown type for loc: '' @ ty) w))"

definition processAssign ::
  "externs \<Rightarrow> Context \<Rightarrow> smatch \<Rightarrow> nat \<Rightarrow> IO \<Rightarrow> halt + Context \<times> IO" where
  "processAssign h cx m lineno w =
     (let name = grp m 1 in
      case variables cx name of
        None \<Rightarrow> Inl (errorAndExit lineno (''Undefined variable: '' @ name) w)
      | Some var \<Rightarrow>
         (let rhs = trim (grp m 2) in
          if var_type var = ''int'' then
            (case evalExpression h rhs of
               None \<Rightarrow> Inl HelperFailure
             | Some val \<Rightarrow> Inr (setVar cx name (var_type var) val, w))
          else if var_type var = ''bool'' then
            (let rhs' = trim rhs in
             if rhs' = ''true'' \<or> rhs' = ''1'' then Inr (setVar cx name (var_type var) ''true'', w)
             else if rhs' = ''false'' \<or> rhs' = ''0'' then Inr (setVar cx name (var_type var) ''false'', w)
             else Inl (errorAndExit lineno (''Invalid bool assignment: '' @ rhs') w))
          else Inr (setVar cx name (var_type var) (unquote rhs), w)))"

text \<open>
  The prompt is written, one line is read (the empty string when the input is at its
  end), and \<^verbatim>\<open>std::stoll\<close> is called on it for its exceptions only: what is stored is
  the line as it was read.
\<close>

definition processInput :: "Context \<Rightarrow> smatch \<Rightarrow> nat \<Rightarrow> IO \<Rightarrow> halt + Context \<times> IO" where
  "processInput cx m lineno w =
     (let name = grp m 1; ty = grp m 2; prompt = grp m 3;
          input = (case cin w of [] \<Rightarrow> [] | l # ls \<Rightarrow> l);
          w' = w\<lparr>cin := drop 1 (cin w), cout := cout w @ prompt\<rparr>
      in if ty = ''i'' then
           (case stoll input of
              Some v \<Rightarrow> Inr (setVar cx name ''int'' input, w')
            | None \<Rightarrow> Inl (errorAndExit lineno (''Invalid input for int: '' @ input) w'))
         else Inr (setVar cx name ''str'' input, w'))"

text \<open>The loop that prints the elements of an array: \<^verbatim>\<open>", "\<close> after each but the last.\<close>

fun printElems :: "nat \<Rightarrow> nat \<Rightarrow> string list \<Rightarrow> string" where
  "printElems n i [] = []"
| "printElems n i (v # vs) = v @ (if i \<noteq> n - 1 then '', '' else []) @ printElems n (Suc i) vs"

definition processPrint ::
  "externs \<Rightarrow> Context \<Rightarrow> smatch \<Rightarrow> nat \<Rightarrow> IO \<Rightarrow> halt + Context \<times> IO" where
  "processPrint h cx m lineno w =
     (if sub_matched m 2 then Inr (cx, w\<lparr>cout := cout w @ grp m 2 @ endl\<rparr>)
      else if sub_matched m 3 then
        (let var = grp m 3 in
         case variables cx var of
           None \<Rightarrow> Inr (cx, w\<lparr>cerr := cerr w @ ''Undefined variable: '' @ var @ endl\<rparr>)
         | Some v \<Rightarrow>
             if var_type v = ''arr'' then
               (let vals = map trim (getlines CHR '','' (var_value v))
                in Inr (cx, w\<lparr>cout := cout w @ ''['' @ printElems (length vals) 0 vals
                                         @ '']'' @ endl\<rparr>))
             else Inr (cx, w\<lparr>cout := cout w @ var_value v @ endl\<rparr>))
      else if sub_matched m 4 then
        (let fname = grp m 4; argsStr = grp m 5;
             args = map trim (getlines CHR '','' argsStr)
         in case functions cx fname of
              None \<Rightarrow> Inl (errorAndExit lineno (''Undefined function: '' @ fname) w)
            | Some fd \<Rightarrow>
               (case executeFunction h fd args (functions cx) (variables cx) w of
                  None \<Rightarrow> Inl HelperFailure
                | Some (res, vars', w') \<Rightarrow>
                    Inr (cx\<lparr>variables := vars'\<rparr>, w'\<lparr>cout := cout w' @ res @ endl\<rparr>)))
      else Inl (errorAndExit lineno ''Bad print expression'' w))"

subsection \<open>The line loop of main\<close>

record State =
  ctx :: Context
  inFunction :: bool
  currentFunc :: FunctionDef
  currentFuncName :: string
  ifStack :: "IfState list"
  io :: IO

text \<open>The parameter list of a function header, split at the commas.\<close>

definition parseParams :: "string \<Rightarrow> (string \<times> string) list" where
  "parseParams paramStr =
     concat (map (\<lambda>p0.
        (let p = trim p0 in
         if p = [] then []
         else if CHR '':'' \<in> set p then
           (let colon = length (takeWhile (\<lambda>c. c \<noteq> CHR '':'') p)
            in [(trim (take colon p), trim (drop (Suc colon) p))])
         else [(''var'', trim p)]))
       (getlines CHR '','' paramStr))"

text \<open>A handler's result put back into the state of the loop.\<close>

definition handled :: "State \<Rightarrow> halt + Context \<times> IO \<Rightarrow> halt + State" where
  "handled st r = (case r of Inl e \<Rightarrow> Inl e | Inr (cx, w) \<Rightarrow> Inr (st\<lparr>ctx := cx, io := w\<rparr>))"

text \<open>The "simple constructs" at the end of the loop body; \<open>i\<close> is the index of the line.\<close>

definition simpleConstruct :: "externs \<Rightarrow> nat \<Rightarrow> string \<Rightarrow> State \<Rightarrow> halt + State" where
  "simpleConstruct h i ln st =
     (case regex_match locRegex ln of
        Some m \<Rightarrow> handled st (processLoc h (ctx st) m (i + 1) (io st))
      | None \<Rightarrow>
     (case regex_match inputRegex ln of
        Some m \<Rightarrow> handled st (processInput (ctx st) m (i + 1) (io st))
      | None \<Rightarrow>
     (case regex_match assignRegex ln of
        Some m \<Rightarrow> handled st (processAssign h (ctx st) m (i + 1) (io st))
      | None \<Rightarrow>
     (case regex_match printRegex ln of
        Some m \<Rightarrow> handled st (processPrint h (ctx st) m (i + 1) (io st))
      | None \<Rightarrow>
         Inl (Exit 1 ((io st)\<lparr>cerr := cerr (io st) @ ''Syntax error at line ''
                                  @ to_string (i + 1) @ '': '' @ ln @ endl\<rparr>))))))"

text \<open>The branch of a line that starts with \<^verbatim>\<open>if-\<close>.\<close>

definition ifLine :: "externs \<Rightarrow> nat \<Rightarrow> string \<Rightarrow> State \<Rightarrow> halt + State" where
  "ifLine h i ln st =
     (case regex_match ifRe ln of
        None \<Rightarrow> Inl (errorAndExit (i + 1) ''Malformed if condition'' (io st))
      | Some m2 \<Rightarrow>
         (case evaluateCondition h (variables (ctx st)) (grp m2 1) (grp m2 2) (grp m2 3) of
            None \<Rightarrow> Inl HelperFailure
          | Some res \<Rightarrow>
              Inr (st\<lparr>ifStack := \<lparr>matched = res, skipping = \<not> res\<rparr> # ifStack st\<rparr>)))"

text \<open>The branch of a line that starts with \<^verbatim>\<open>elif-\<close>.\<close>

definition elifLine :: "externs \<Rightarrow> nat \<Rightarrow> string \<Rightarrow> State \<Rightarrow> halt + State" where
  "elifLine h i ln st =
     (case ifStack st of
        [] \<Rightarrow> Inl (errorAndExit (i + 1) ''elif without if'' (io st))
      | tp # stk \<Rightarrow>
         if matched tp then Inr (st\<lparr>ifStack := \<lparr>matched = True, skipping = True\<rparr> # stk\<rparr>)
         else
           (case regex_match elifRe ln of
              None \<Rightarrow> Inl (errorAndExit (i + 1) ''Malformed elif'' (io st))
            | Some m2 \<Rightarrow>
               (case evaluateCondition h (variables (ctx st)) (grp m2 1) (grp m2 2) (grp m2 3) of
                  None \<Rightarrow> Inl HelperFailure
                | Some res \<Rightarrow>
                    Inr (st\<lparr>ifStack := \<lparr>matched = res, skipping = \<not> res\<rparr> # stk\<rparr>))))"

text \<open>The line \<^verbatim>\<open>end--\<close>.\<close>

definition endLine :: "nat \<Rightarrow> State \<Rightarrow> halt + State" where
  "endLine i st =
     (case ifStack st of
        [] \<Rightarrow> Inl (errorAndExit (i + 1) ''end-- without if'' (io st))
      | tp # stk \<Rightarrow> Inr (st\<lparr>ifStack := stk\<rparr>))"

text \<open>A function header: collection mode opens, with a cleared body and the parsed parameters.\<close>

definition openFunction :: "smatch \<Rightarrow> State \<Rightarrow> State" where
  "openFunction m st =
     st\<lparr>inFunction := True,
        currentFuncName := grp m 2,
        currentFunc := \<lparr>returnType = grp m 1, params = parseParams (grp m 3), body = []\<rparr>\<rparr>"

text \<open>
  One round of the loop \<^verbatim>\<open>for (size_t i = 0; i < lines.size(); ++i)\<close> on the line \<open>ln\<close>
  of index \<open>i\<close>: \<open>Inr\<close> is the state with which the loop goes on, \<open>Inl\<close> the end of
  the process.
\<close>

definition step :: "externs \<Rightarrow> nat \<Rightarrow> string \<Rightarrow> State \<Rightarrow> halt + State" where
  "step h i ln st =
     (if ln = [] then Inr st
      else if inFunction st then
        (if ln = ''}'' then
           Inr (st\<lparr>ctx := (ctx st)\<lparr>functions :=
                       (functions (ctx st))(currentFuncName st \<mapsto> currentFunc st)\<rparr>,
                   inFunction := False\<rparr>)
         else Inr (st\<lparr>currentFunc :=
                       (currentFunc st)\<lparr>body := body (currentFunc st) @ [ln]\<rparr>\<rparr>))
      else
        (case regex_match funRegex ln of
           Some m \<Rightarrow> Inr (openFunction m st)
         | None \<Rightarrow>
            if startsWith ln ''if-'' then ifLine h i ln st
            else if startsWith ln ''elif-'' then elifLine h i ln st
            else if ln = ''end--'' then endLine i st
            else if ifStack st \<noteq> [] \<and> skipping (hd (ifStack st)) then Inr st
            else simpleConstruct h i ln st))"

fun run :: "externs \<Rightarrow> nat \<Rightarrow> string list \<Rightarrow> State \<Rightarrow> halt + State" where
  "run h i [] st = Inr st"
| "run h i (ln # lns) st =
     (case step h i ln st of
        Inl e \<Rightarrow> Inl e
      | Inr st' \<Rightarrow> run h (Suc i) lns st')"

definition initial :: "string list \<Rightarrow> State" where
  "initial input =
     \<lparr>ctx = \<lparr>functions = Map.empty, variables = Map.empty\<rparr>,
      inFunction = False,
      currentFunc = \<lparr>returnType = [], params = [], body = []\<rparr>,
      currentFuncName = [],
      ifStack = [],
      io = \<lparr>cin = input, cout = [], cerr = []\<rparr>\<rparr>"

text \<open>
  The interpreter on the lines of a file, each trimmed as it is read, and the lines
  waiting on standard input: the loop, then \<^verbatim>\<open>return 0\<close>.
\<close>

definition runLines :: "externs \<Rightarrow> string list \<Rightarrow> string list \<Rightarrow> halt" where
  "runLines h file_lines input =
     (case run h 0 (map trim file_lines) (initial input) of
        Inl e \<Rightarrow> e
      | Inr st \<Rightarrow> Exit 0 (io st))"

text \<open>
  \<^verbatim>\<open>main\<close>: the arguments of the command line (the name of the program first), the
  files that can be opened with their contents, and the standard input.
\<close>

definition main :: "externs \<Rightarrow> string list \<Rightarrow> (string \<rightharpoonup> string) \<Rightarrow> string list \<Rightarrow> halt" where
  "main h argv files input =
     (if length argv < 2 then
        Exit 1 \<lparr>cin = input, cout = [], cerr = ''Usage: lomake <file.lo>'' @ endl\<rparr>
      else
        (case files (argv ! 1) of
           None \<Rightarrow> Exit 1 \<lparr>cin = input, cout = [], cerr = ''Failed to open file'' @ endl\<rparr>
         | Some text \<Rightarrow> runLines h (getlines CHR 0x0A text) input))"

subsection \<open>Notions used in the statements\<close>

text \<open>
  The loop is at a line it would execute as a simple statement: no function body is
  being collected and the innermost conditional frame, if there is one, is not skipping.
\<close>

definition executing :: "State \<Rightarrow> bool" where
  "executing st = (\<not> inFunction st \<and> (ifStack st = [] \<or> skipping (hd (ifStack st)) = False))"

text \<open>A line that none of the tests of the loop body accepts.\<close>

definition unrecognized :: "string \<Rightarrow> bool" where
  "unrecognized ln =
     (regex_match funRegex ln = None \<and> \<not> startsWith ln ''if-'' \<and> \<not> startsWith ln ''elif-''
      \<and> ln \<noteq> ''end--'' \<and> regex_match locRegex ln = None \<and> regex_match inputRegex ln = None
      \<and> regex_match assignRegex ln = None \<and> regex_match printRegex ln = None)"


text \<open>
  The invariant of the spec on a stored value, in its words: an integer is decimal text
  (digits, after a minus sign or not), a boolean is exactly \<^verbatim>\<open>true\<close> or \<^verbatim>\<open>false\<close>, an
  array is its elements joined by commas, each trimmed and without quotes around it.
\<close>

definition decimalText :: "string \<Rightarrow> bool" where
  "decimalText s =
     (case s of
        [] \<Rightarrow> False
      | c # cs \<Rightarrow> if c = CHR ''-'' then cs \<noteq> [] \<and> list_all isdigit cs else list_all isdigit s)"

definition reparseable :: "Variable \<Rightarrow> bool" where
  "reparseable v =
     (if var_type v = ''int'' then decimalText (var_value v)
      else if var_type v = ''bool'' then var_value v = ''true'' \<or> var_value v = ''false''
      else if var_type v = ''arr'' then
        list_all (\<lambda>e. trim e = e \<and> unquote e = e) (getlines CHR '','' (var_value v))
      else True)"

text \<open>
  The statement \<^verbatim>\<open>print--f-NAME(ARGS)!\<close>, a call of the function \<^verbatim>\<open>NAME\<close>.
\<close>

definition callLine :: "string \<Rightarrow> string \<Rightarrow> string" where
  "callLine name args = ''print--f-'' @ name @ ''('' @ args @ '')!''"


text \<open>
  Helpers that fail on every call, to run programs that call none of them.
\<close>

definition noHelpers :: externs where
  "noHelpers =
     \<lparr>evalExpression = (\<lambda>e. None),
      evaluateCondition = (\<lambda>vs a op b. None),
      executeFunction = (\<lambda>fd args fs vs w. None)\<rparr>"

section \<open>Properties\<close>

subsection \<open>The loop and the patterns\<close>

lemma run_append:
  "run h i (xs @ ys) st =
     (case run h i xs st of Inl e \<Rightarrow> Inl e | Inr st' \<Rightarrow> run h (i + length xs) ys st')"
  by (induction xs arbitrary: i st) (auto split: sum.splits)

lemma startsWith_take: "startsWith s p \<longleftrightarrow> take (length p) s = p"
  unfolding startsWith_def
  by (metis length_take min.absorb_iff2 nat_le_linear take_all)

lemma regex_match_Str_prefix:
  "\<not> startsWith s p \<Longrightarrow> regex_match (cat (Str p # r # rs)) s = None"
  by (simp add: regex_match_def startsWith_take)

lemma if_not_funS: "startsWith ln ''if-'' \<Longrightarrow> regex_match funRegex ln = None"
  unfolding funRegex_def
  by (rule regex_match_Str_prefix) (cases ln; auto simp: startsWith_take)

lemma elif_not_funS: "startsWith ln ''elif-'' \<Longrightarrow> regex_match funRegex ln = None"
  unfolding funRegex_def
  by (rule regex_match_Str_prefix) (cases ln; auto simp: startsWith_take)

lemma elif_not_if: "startsWith ln ''elif-'' \<Longrightarrow> \<not> startsWith ln ''if-''"
  by (cases ln; auto simp: startsWith_take)

lemma startsWith_nonempty: "startsWith ln (c # p) \<Longrightarrow> ln \<noteq> []"
  by (auto simp: startsWith_def)

lemma runLines_end:
  "run h 0 (map trim fl) (initial inp) = Inr st \<Longrightarrow> runLines h fl inp = Exit 0 (io st)"
  by (simp add: runLines_def)

lemma runLines_at:
  assumes "run h 0 (map trim fpre) (initial inp) = Inr st"
    and "step h (length fpre) (trim l) st = Inl e"
  shows "runLines h (fpre @ l # fpost) inp = e"
  using assms by (simp add: runLines_def run_append)

lemma step_unrecognized:
  assumes "executing st" "ln \<noteq> []" "unrecognized ln"
  shows "step h i ln st = Inl (Exit 1 ((io st)\<lparr>cerr := cerr (io st) @ ''Syntax error at line ''
            @ to_string (i + 1) @ '': '' @ ln @ endl\<rparr>))"
  using assms by (auto simp: executing_def unrecognized_def step_def simpleConstruct_def)

lemma step_collecting:
  "inFunction st \<Longrightarrow> ln \<noteq> ''}'' \<Longrightarrow>
     step h i ln st = Inr (if ln = [] then st
        else st\<lparr>currentFunc := (currentFunc st)\<lparr>body := body (currentFunc st) @ [ln]\<rparr>\<rparr>)"
  by (simp add: step_def)


lemma step_if:
  assumes "\<not> inFunction st" "startsWith ln ''if-''"
  shows "step h i ln st = ifLine h i ln st"
  using assms startsWith_nonempty [of ln "CHR ''i''" "''f-''"] if_not_funS [of ln]
  by (simp add: step_def)

lemma step_elif:
  assumes "\<not> inFunction st" "startsWith ln ''elif-''"
  shows "step h i ln st = elifLine h i ln st"
  using assms startsWith_nonempty [of ln "CHR ''e''" "''lif-''"] elif_not_funS [of ln]
    elif_not_if [of ln]
  by (simp add: step_def)

lemma step_end:
  assumes "\<not> inFunction st"
  shows "step h i ''end--'' st = endLine i st"
proof -
  have "regex_match funRegex ''end--'' = None" "startsWith ''end--'' ''if-'' = False"
    "startsWith ''end--'' ''elif-'' = False"
    by code_simp+
  with assms show ?thesis by (simp add: step_def)
qed

lemma step_simple:
  assumes "executing st" "ln \<noteq> []" "regex_match funRegex ln = None"
    "startsWith ln ''if-'' = False" "startsWith ln ''elif-'' = False" "ln \<noteq> ''end--''"
  shows "step h i ln st = simpleConstruct h i ln st"
  using assms by (auto simp: step_def executing_def)

lemma step_statement:
  assumes "\<not> inFunction st" "ln \<noteq> []" "regex_match funRegex ln = None"
    "startsWith ln ''if-'' = False" "startsWith ln ''elif-'' = False" "ln \<noteq> ''end--''"
  shows "step h i ln st =
           (if ifStack st \<noteq> [] \<and> skipping (hd (ifStack st)) then Inr st
            else simpleConstruct h i ln st)"
  using assms by (simp add: step_def)

lemma cond_lines:
  "trim ''if- 1 === 1 the'' = ''if- 1 === 1 the''"
  "startsWith ''if- 1 === 1 the'' ''if-''"
  "regex_match ifRe ''if- 1 === 1 the'' = Some [(3, ''1''), (2, ''===''), (1, ''1'')]"
  "trim ''if- 2 === 2 the'' = ''if- 2 === 2 the''"
  "startsWith ''if- 2 === 2 the'' ''if-''"
  "regex_match ifRe ''if- 2 === 2 the'' = Some [(3, ''2''), (2, ''===''), (1, ''2'')]"
  "trim ''elif- 1 === 1 the'' = ''elif- 1 === 1 the''"
  "startsWith ''elif- 1 === 1 the'' ''elif-''"
  "regex_match elifRe ''elif- 1 === 1 the'' = Some [(3, ''1''), (2, ''===''), (1, ''1'')]"
  "trim ''elif- 2 === 2 the'' = ''elif- 2 === 2 the''"
  "startsWith ''elif- 2 === 2 the'' ''elif-''"
  "regex_match elifRe ''elif- 2 === 2 the'' = Some [(3, ''2''), (2, ''===''), (1, ''2'')]"
  "trim ''end--'' = ''end--''"
  "regex_match funRegex ''end--'' = None"
  "startsWith ''end--'' ''if-'' = False"
  "startsWith ''end--'' ''elif-'' = False"
  by code_simp+

text \<open>
  The matcher on a run of characters of one class that ends at a character outside the
  class: of all the ways a star can stop inside the run, only the one that takes the whole
  run survives a continuation that cannot start with a character of the class.
\<close>

lemma star_cont:
  assumes "list_all P xs" and "\<not> P c"
    and kill: "\<And>y ys cp. P y \<Longrightarrow> K (y # ys) cp = []"
  shows "concat (map (\<lambda>(s', cp). K s' cp) (rxm (Star (Cls P)) (xs @ c # t) caps)) = K (c # t) caps"
  using assms(1)
proof (induction xs)
  case Nil
  with assms(2) show ?case by simp
next
  case (Cons x xs)
  then have px: "P x" and pxs: "list_all P xs" by simp_all
  have "rxm (Star (Cls P)) ((x # xs) @ c # t) caps
      = rxm (Star (Cls P)) (xs @ c # t) caps @ [((x # xs) @ c # t, caps)]"
    using px by simp
  then show ?case
    using Cons.IH [OF pxs] kill [OF px] by simp
qed

lemma grp_plus_cont:
  assumes "list_all P (x # xs)" and "\<not> P c"
    and kill: "\<And>y ys cp. P y \<Longrightarrow> rxm R (y # ys) cp = []"
  shows "rxm (Seq (Grp k (Plus (Cls P))) R) (x # xs @ c # t) caps
           = rxm R (c # t) ((k, x # xs) # caps)"
proof -
  let ?S = "x # xs @ c # t"
  let ?K = "\<lambda>s' cp. rxm R s' ((k, take (length ?S - length s') ?S) # cp)"
  from assms(1) have px: "P x" and pxs: "list_all P xs" by simp_all
  have plus: "rxm (Plus (Cls P)) ?S caps = rxm (Star (Cls P)) (xs @ c # t) caps"
    using px by simp
  have "rxm (Seq (Grp k (Plus (Cls P))) R) ?S caps
      = concat (map (\<lambda>(s', cp). ?K s' cp) (rxm (Star (Cls P)) (xs @ c # t) caps))"
    unfolding rxm.simps(3) [of "Grp k (Plus (Cls P))"] rxm.simps(6) plus
    by (simp add: map_concat comp_def case_prod_unfold del: rxm.simps)
  also have "\<dots> = ?K (c # t) caps"
    using pxs assms(2) by (rule star_cont) (simp add: kill)
  also have "\<dots> = rxm R (c # t) ((k, x # xs) # caps)"
    by simp
  finally show ?thesis .
qed

lemma grp_star_cont:
  assumes "list_all P xs" and "\<not> P c"
    and kill: "\<And>y ys cp. P y \<Longrightarrow> rxm R (y # ys) cp = []"
  shows "rxm (Seq (Grp k (Star (Cls P))) R) (xs @ c # t) caps
           = rxm R (c # t) ((k, xs) # caps)"
proof -
  let ?S = "xs @ c # t"
  let ?K = "\<lambda>s' cp. rxm R s' ((k, take (length ?S - length s') ?S) # cp)"
  have "rxm (Seq (Grp k (Star (Cls P))) R) ?S caps
      = concat (map (\<lambda>(s', cp). ?K s' cp) (rxm (Star (Cls P)) ?S caps))"
    unfolding rxm.simps(3) [of "Grp k (Star (Cls P))"] rxm.simps(6)
    by (simp add: map_concat comp_def case_prod_unfold del: rxm.simps)
  also have "\<dots> = ?K (c # t) caps"
    using assms(1,2) by (rule star_cont) (simp add: kill)
  also have "\<dots> = rxm R (c # t) ((k, xs) # caps)"
    by simp
  finally show ?thesis .
qed

text \<open>
  How the tests of the loop classify a call line, whatever the name and the arguments:
  only the print pattern accepts it, with the name in group 4 and the arguments in
  group 5.
\<close>

lemma word_then_eq_none:
  assumes "list_all isword (x # xs)" and "\<not> isword c" and "\<not> isspace c" and "c \<noteq> CHR ''=''"
  shows "rxm (Seq (Grp 1 word) (Seq spaces (Seq (Str ''='') R))) (x # xs @ c # t) caps = []"
proof -
  have kill: "rxm (Seq spaces (Seq (Str ''='') R)) (y # ys) cp = []" if "isword y" for y ys cp
  proof -
    from that have "\<not> isspace y" "y \<noteq> CHR ''=''"
      by (auto simp: isword_def isspace_def Let_def)
    then show ?thesis by simp
  qed
  have "rxm (Seq (Grp 1 word) (Seq spaces (Seq (Str ''='') R))) (x # xs @ c # t) caps
      = rxm (Seq spaces (Seq (Str ''='') R)) (c # t) ((1, x # xs) # caps)"
    using assms(1,2) kill by (rule grp_plus_cont)
  also have "\<dots> = []"
    using assms(3,4) by simp
  finally show ?thesis .
qed

lemma callLine_shape:
  "callLine name args = CHR ''p'' # ''rint'' @ CHR ''-'' # (''-f-'' @ name @ ''('' @ args @ '')!'')"
  by (simp add: callLine_def)

lemma callLine_not_assign:
  "regex_match assignRegex (callLine name args) = None"
  "regex_match inputRegex (callLine name args) = None"
proof -
  have w: "list_all isword (CHR ''p'' # ''rint'')" "\<not> isword CHR ''-''" "\<not> isspace CHR ''-''"
    by code_simp+
  have a: "assignRegex = Seq (Grp 1 word) (Seq spaces (Seq (Str ''='')
      (cat [spaces, Grp 2 (Plus (Cls anychar)), Str ''!''])))"
    by (simp add: assignRegex_def)
  show "regex_match assignRegex (callLine name args) = None"
    unfolding regex_match_def a callLine_shape
    by (subst word_then_eq_none [OF w]) simp_all
  have b: "inputRegex = Seq (Grp 1 word) (Seq spaces (Seq (Str ''='')
      (cat [spaces, Str ''input--'', spaces,
          Grp 2 (Alt (Str ''i'') (Str ''str'')), Str ''-'', spaces,
          Str [CHR 0x22], Grp 3 (Star (Cls notquote)), Str [CHR 0x22], Str ''!''])))"
    by (simp add: inputRegex_def)
  show "regex_match inputRegex (callLine name args) = None"
    unfolding regex_match_def b callLine_shape
    by (subst word_then_eq_none [OF w]) simp_all
qed

lemma callLine_not_started:
  "callLine name args \<noteq> []"
  "callLine name args \<noteq> ''}''"
  "callLine name args \<noteq> ''end--''"
  "startsWith (callLine name args) ''if-'' = False"
  "startsWith (callLine name args) ''elif-'' = False"
  "regex_match funRegex (callLine name args) = None"
  "regex_match locRegex (callLine name args) = None"
proof -
  show "callLine name args \<noteq> []" "callLine name args \<noteq> ''}''" "callLine name args \<noteq> ''end--''"
    "startsWith (callLine name args) ''if-'' = False"
    "startsWith (callLine name args) ''elif-'' = False"
    by (simp_all add: callLine_def startsWith_take)
  have "\<not> startsWith (callLine name args) ''funS''" "\<not> startsWith (callLine name args) ''loc''"
    by (simp_all add: callLine_def startsWith_take)
  then show "regex_match funRegex (callLine name args) = None"
    "regex_match locRegex (callLine name args) = None"
    unfolding funRegex_def locRegex_def by (simp_all add: regex_match_Str_prefix del: cat.simps)
qed

lemma call_alternative:
  assumes "name \<noteq> []" "list_all isword name" "list_all notparen args"
  shows "rxm (cat [Str ''f-'', Grp 4 word, Str ''('', Grp 5 (Star (Cls notparen)), Str '')''])
           (''f-'' @ name @ ''('' @ args @ '')!'') caps
         = [(''!'', (5, args) # (4, name) # caps)]"
proof -
  from assms(1) obtain x xs where n: "name = x # xs" by (cases name) auto
  let ?R2 = "Seq (Grp 5 (Star (Cls notparen))) (Str '')'')"
  let ?R1 = "Seq (Str ''('') ?R2"
  have k1: "rxm ?R1 (y # ys) cp = []" if "isword y" for y ys cp
  proof -
    from that have "y \<noteq> CHR ''(''" by (auto simp: isword_def Let_def)
    then show ?thesis by simp
  qed
  have k2: "rxm (Str '')'') (y # ys) cp = []" if "notparen y" for y ys cp
    using that by (simp add: notparen_def)
  have np: "\<not> isword CHR ''(''" "\<not> notparen CHR '')''" by code_simp+
  have "rxm (cat [Str ''f-'', Grp 4 word, Str ''('', Grp 5 (Star (Cls notparen)), Str '')''])
           (''f-'' @ name @ ''('' @ args @ '')!'') caps
      = rxm (Seq (Grp 4 word) ?R1) (x # xs @ CHR ''('' # (args @ '')!'')) caps"
    by (simp add: n rxm.simps(3) [of "Str ''f-''"] del: rxm.simps(3,5,6))
  also have "\<dots> = rxm ?R1 (CHR ''('' # (args @ '')!'')) ((4, x # xs) # caps)"
    using assms(2) np(1) k1 unfolding n by (rule grp_plus_cont)
  also have "\<dots> = rxm ?R2 (args @ CHR '')'' # ''!'') ((4, name) # caps)"
    by (simp add: n rxm.simps(3) [of "Str ''(''"] del: rxm.simps(3,5,6))
  also have "\<dots> = rxm (Str '')'') (CHR '')'' # ''!'') ((5, args) # (4, name) # caps)"
    using assms(3) np(2) k2 by (rule grp_star_cont)
  also have "\<dots> = [(''!'', (5, args) # (4, name) # caps)]"
    by simp
  finally show ?thesis .
qed

lemma seq_Str: "rxm (Seq (Str p) r) (p @ t) caps = rxm r t caps"
  by simp

lemma seq_spaces_f: "rxm (Seq spaces r) (''f-'' @ t) caps = rxm r (''f-'' @ t) caps"
proof -
  have "\<not> isspace CHR ''f''" by code_simp
  then show ?thesis by simp
qed

lemma seq_Alt: "rxm (Seq (Alt a b) r) s caps = rxm (Seq a r) s caps @ rxm (Seq b r) s caps"
  by simp

lemma callLine_split: "callLine name args = ''print--'' @ ''f-'' @ name @ ''('' @ args @ '')!''"
  by (simp add: callLine_def)

lemma callLine_print:
  assumes "name \<noteq> []" "list_all isword name" "list_all notparen args"
  shows "regex_match printRegex (callLine name args) = Some [(5, args), (4, name)]"
proof -
  let ?C = "cat [Str ''f-'', Grp 4 word, Str ''('', Grp 5 (Star (Cls notparen)), Str '')'']"
  let ?A = "Grp 1 (cat [Str [CHR 0x22], Grp 2 (Star (Cls notquote)), Str [CHR 0x22]])"
  let ?B = "Grp 3 word"
  let ?T = "''f-'' @ name @ ''('' @ args @ '')!''"
  have sp: "isword CHR ''f''" "\<not> isword CHR ''-''" by code_simp+
  have pr: "printRegex = Seq (Str ''print--'') (Seq spaces (Seq (Alt ?A (Alt ?B ?C)) (Str ''!'')))"
    by (simp add: printRegex_def)
  have "rxm printRegex (callLine name args) []
      = rxm (Seq (Alt ?A (Alt ?B ?C)) (Str ''!'')) ?T []"
    unfolding pr by (simp only: callLine_split seq_Str seq_spaces_f)
  also have "\<dots> = rxm (Seq ?A (Str ''!'')) ?T [] @ rxm (Seq ?B (Str ''!'')) ?T []
      @ rxm (Seq ?C (Str ''!'')) ?T []"
    by (simp only: seq_Alt)
  also have "rxm (Seq ?A (Str ''!'')) ?T [] = []"
    by simp
  also have "rxm (Seq ?B (Str ''!'')) ?T [] = []"
    using sp by simp
  also have "rxm (Seq ?C (Str ''!'')) ?T [] = [([], [(5, args), (4, name)])]"
    by (simp only: rxm.simps(3) [of ?C] call_alternative [OF assms]) simp
  finally show ?thesis by (simp add: regex_match_def)
qed

subsection \<open>Printing an array\<close>









lemma joinFrom_Suc: "joinFrom (Suc i) es = concat (map (\<lambda>e. CHR '','' # e) es)"
  by (induction es arbitrary: i) simp_all

lemma joinFrom_0: "joinFrom 0 (e # es) = e @ concat (map (\<lambda>e. CHR '','' # e) es)"
  by (simp add: joinFrom_Suc)







subsection \<open>Calling an undefined function\<close>

lemma foo_line:
  "regex_match funRegex ''print--f-foo()!'' = None"
  "startsWith ''print--f-foo()!'' ''if-'' = False"
  "startsWith ''print--f-foo()!'' ''elif-'' = False"
  "regex_match locRegex ''print--f-foo()!'' = None"
  "regex_match inputRegex ''print--f-foo()!'' = None"
  "regex_match assignRegex ''print--f-foo()!'' = None"
  "regex_match printRegex ''print--f-foo()!'' = Some [(5, []), (4, ''foo'')]"
  by code_simp+

lemma step_call_undefined:
  assumes "executing st" "name \<noteq> []" "list_all isword name" "list_all notparen args"
    and "functions (ctx st) name = None"
  shows "step h i (callLine name args) st
     = Inl (Exit 1 ((io st)\<lparr>cerr := cerr (io st) @ ''Error at line ''
            @ to_string (i + 1) @ '': Undefined function: '' @ name @ endl\<rparr>))"
proof -
  have "step h i (callLine name args) st = simpleConstruct h i (callLine name args) st"
    using assms(1) by (intro step_simple callLine_not_started)
  also have "\<dots> = handled st (processPrint h (ctx st) [(5, args), (4, name)] (i + 1) (io st))"
    using assms(2,3,4)
    by (simp add: simpleConstruct_def callLine_not_started callLine_not_assign callLine_print)
  also have "\<dots> = Inl (Exit 1 ((io st)\<lparr>cerr := cerr (io st) @ ''Error at line ''
            @ to_string (i + 1) @ '': Undefined function: '' @ name @ endl\<rparr>))"
    using assms(5)
    by (simp add: processPrint_def sub_matched_def grp_def handled_def errorAndExit_def)
  finally show ?thesis .
qed

lemma step_call_collected:
  assumes "inFunction st"
  shows "step h i (callLine name args) st
     = Inr (st\<lparr>currentFunc := (currentFunc st)\<lparr>body := body (currentFunc st) @ [callLine name args]\<rparr>\<rparr>)"
  using assms by (simp add: step_collecting callLine_not_started)

lemma step_call_skipped:
  assumes "\<not> inFunction st" "ifStack st \<noteq> []" "skipping (hd (ifStack st))"
  shows "step h i (callLine name args) st = Inr st"
  using assms by (simp add: step_statement callLine_not_started)

lemma foo_in_body_lines:
  "regex_match funRegex ''funS int g(): {'' = Some [(3, []), (2, ''g''), (1, ''int'')]"
  "trim ''funS int g(): {'' = ''funS int g(): {''"
  "trim ''print--f-foo()!'' = ''print--f-foo()!''"
  "trim ''}'' = ''}''"
  "callLine ''foo'' [] = ''print--f-foo()!''"
  by code_simp+

text \<open>
  A program whose line \<^verbatim>\<open>print--f-foo()!\<close> stands in the body of a function that is
  defined and never called, and a program where it stands in a branch that is skipped
  whatever the evaluator answers: no function \<^verbatim>\<open>foo\<close> is defined, and the status is 0
  with nothing on the error stream.
\<close>

theorem call_not_executed_counterexample:
  "(\<forall>h inp. runLines h [''funS int g(): {'', ''print--f-foo()!'', ''}''] inp
       = Exit 0 \<lparr>cin = inp, cout = [], cerr = []\<rparr>)
   \<and> (\<forall>h inp. runLines h [''if- 1 === 1 the'', ''elif- 1 === 1 the'', ''print--f-foo()!'', ''end--''] inp
       = (case evaluateCondition h Map.empty ''1'' ''==='' ''1'' of
            None \<Rightarrow> HelperFailure
          | Some r \<Rightarrow> Exit 0 \<lparr>cin = inp, cout = [], cerr = []\<rparr>))"
proof (intro conjI allI)
  fix h inp
  show "runLines h [''funS int g(): {'', ''print--f-foo()!'', ''}''] inp
       = Exit 0 \<lparr>cin = inp, cout = [], cerr = []\<rparr>"
    by (simp add: runLines_def foo_in_body_lines step_def initial_def openFunction_def)
  have c: "''print--f-foo()!'' = callLine ''foo'' []" by (simp add: foo_in_body_lines)
  show "runLines h [''if- 1 === 1 the'', ''elif- 1 === 1 the'', ''print--f-foo()!'', ''end--''] inp
       = (case evaluateCondition h Map.empty ''1'' ''==='' ''1'' of
            None \<Rightarrow> HelperFailure
          | Some r \<Rightarrow> Exit 0 \<lparr>cin = inp, cout = [], cerr = []\<rparr>)"
    by (simp add: runLines_def foo_in_body_lines cond_lines step_if step_elif step_end
        step_statement foo_line initial_def ifLine_def elifLine_def endLine_def grp_def
        split: option.splits)
qed

text \<open>
  C8, as the code has it. A call that is executed is fatal when the function is not
  defined: \<^verbatim>\<open>processPrint\<close> on a call of a name that is not in the function table ends the
  process with status 1 and \<^verbatim>\<open>Error at line N: Undefined function: NAME\<close>. When the loop
  reaches a line \<^verbatim>\<open>print--f-NAME(ARGS)!\<close> (a name of word characters, arguments without a
  closing parenthesis; \<^verbatim>\<open>print--f-foo()!\<close> is such a line) where it executes statements,
  with no function of that name defined, the run ends with status 1, whatever follows,
  and that diagnostic, which contains \<^verbatim>\<open>Undefined function\<close>, is added to the error
  stream. The same line reached while a function body is being collected is stored as
  a line of the body, and reached while the innermost frame is skipping it is passed
  over: neither ends the run.
\<close>

theorem undefined_function_fatal:
  "(\<not> sub_matched m 2 \<and> \<not> sub_matched m 3 \<and> sub_matched m 4 \<and> functions cx (grp m 4) = None
      \<longrightarrow> processPrint h cx m n w
           = Inl (Exit 1 (w\<lparr>cerr := cerr w @ ''Error at line '' @ to_string n
                              @ '': Undefined function: '' @ grp m 4 @ endl\<rparr>)))
   \<and> (run h 0 (map trim fpre) (initial inp) = Inr st \<and> executing st
        \<and> name \<noteq> [] \<and> list_all isword name \<and> list_all notparen args
        \<and> functions (ctx st) name = None \<and> trim l = callLine name args
      \<longrightarrow> runLines h (fpre @ l # fpost) inp
            = Exit 1 ((io st)\<lparr>cerr := cerr (io st) @ ''Error at line ''
                          @ to_string (length fpre + 1) @ '': Undefined function: '' @ name @ endl\<rparr>)
          \<and> sublist ''Undefined function''
               (''Error at line '' @ to_string (length fpre + 1)
                  @ '': Undefined function: '' @ name @ endl))
   \<and> callLine ''foo'' [] = ''print--f-foo()!''
   \<and> ''foo'' \<noteq> [] \<and> list_all isword ''foo'' \<and> list_all notparen []
   \<and> (inFunction fs
      \<longrightarrow> step h i (callLine name args) fs
           = Inr (fs\<lparr>currentFunc :=
                      (currentFunc fs)\<lparr>body := body (currentFunc fs) @ [callLine name args]\<rparr>\<rparr>))
   \<and> (\<not> inFunction sk \<and> ifStack sk \<noteq> [] \<and> skipping (hd (ifStack sk))
      \<longrightarrow> step h i (callLine name args) sk = Inr sk)"
proof (intro conjI impI)
  assume "\<not> sub_matched m 2 \<and> \<not> sub_matched m 3 \<and> sub_matched m 4 \<and> functions cx (grp m 4) = None"
  then show "processPrint h cx m n w
           = Inl (Exit 1 (w\<lparr>cerr := cerr w @ ''Error at line '' @ to_string n
                              @ '': Undefined function: '' @ grp m 4 @ endl\<rparr>))"
    by (simp add: processPrint_def errorAndExit_def)
next
  assume a: "run h 0 (map trim fpre) (initial inp) = Inr st \<and> executing st
        \<and> name \<noteq> [] \<and> list_all isword name \<and> list_all notparen args
        \<and> functions (ctx st) name = None \<and> trim l = callLine name args"
  then have "step h (length fpre) (trim l) st
      = Inl (Exit 1 ((io st)\<lparr>cerr := cerr (io st) @ ''Error at line ''
            @ to_string (length fpre + 1) @ '': Undefined function: '' @ name @ endl\<rparr>))"
    by (simp add: step_call_undefined)
  with a show "runLines h (fpre @ l # fpost) inp
            = Exit 1 ((io st)\<lparr>cerr := cerr (io st) @ ''Error at line ''
                          @ to_string (length fpre + 1) @ '': Undefined function: '' @ name @ endl\<rparr>)"
    by (intro runLines_at) simp_all
next
  have "''Error at line '' @ to_string (length fpre + 1) @ '': Undefined function: '' @ name @ endl
      = (''Error at line '' @ to_string (length fpre + 1) @ '': '') @ ''Undefined function''
          @ ('': '' @ name @ endl)"
    by simp
  then show "sublist ''Undefined function''
               (''Error at line '' @ to_string (length fpre + 1)
                  @ '': Undefined function: '' @ name @ endl)"
    unfolding sublist_def by blast
next
  show "callLine ''foo'' [] = ''print--f-foo()!''" by (rule foo_in_body_lines)
next
  show "''foo'' \<noteq> []" by simp
next
  show "list_all isword ''foo''" by code_simp
next
  show "list_all notparen []" by simp
next
  assume "inFunction fs"
  then show "step h i (callLine name args) fs
           = Inr (fs\<lparr>currentFunc :=
                      (currentFunc fs)\<lparr>body := body (currentFunc fs) @ [callLine name args]\<rparr>\<rparr>)"
    by (rule step_call_collected)
next
  assume "\<not> inFunction sk \<and> ifStack sk \<noteq> [] \<and> skipping (hd (ifStack sk))"
  then show "step h i (callLine name args) sk = Inr sk"
    by (simp add: step_call_skipped)
qed

theorem undefined_function_fatal_witness:
  "\<not> sub_matched [(5, ''3,4''), (4, ''add'')] 2 \<and> \<not> sub_matched [(5, ''3,4''), (4, ''add'')] 3
   \<and> sub_matched [(5, ''3,4''), (4, ''add'')] 4
   \<and> functions (ctx (initial [])) (grp [(5, ''3,4''), (4, ''add'')] 4) = None
   \<and> processPrint noHelpers (ctx (initial [])) [(5, ''3,4''), (4, ''add'')] 9 (io (initial []))
      = Inl (Exit 1 \<lparr>cin = [], cout = [], cerr = ''Error at line 9: Undefined function: add'' @ endl\<rparr>)
   \<and> run noHelpers 0 (map trim []) (initial []) = Inr (initial [])
   \<and> executing (initial [])
   \<and> ''foo'' \<noteq> [] \<and> list_all isword ''foo'' \<and> list_all notparen []
   \<and> functions (ctx (initial [])) ''foo'' = None
   \<and> trim ''  print--f-foo()! '' = callLine ''foo'' []
   \<and> runLines noHelpers [''  print--f-foo()! ''] []
       = Exit 1 \<lparr>cin = [], cout = [], cerr = ''Error at line 1: Undefined function: foo'' @ endl\<rparr>
   \<and> inFunction ((initial [])\<lparr>inFunction := True\<rparr>)
   \<and> step noHelpers 1 ''print--f-foo()!'' ((initial [])\<lparr>inFunction := True\<rparr>)
       = Inr ((initial [])\<lparr>inFunction := True,
                currentFunc := \<lparr>returnType = [], params = [], body = [''print--f-foo()!'']\<rparr>\<rparr>)
   \<and> step noHelpers 1 ''print--f-foo()!''
         ((initial [])\<lparr>ifStack := [\<lparr>matched = False, skipping = True\<rparr>]\<rparr>)
       = Inr ((initial [])\<lparr>ifStack := [\<lparr>matched = False, skipping = True\<rparr>]\<rparr>)"
proof -
  let ?m = "[(5, ''3,4''), (4, ''add'')] :: smatch"
  let ?fs = "(initial [])\<lparr>inFunction := True\<rparr>"
  let ?sk = "(initial [])\<lparr>ifStack := [\<lparr>matched = False, skipping = True\<rparr>]\<rparr>"
  have a: "\<not> sub_matched ?m 2" "\<not> sub_matched ?m 3" "sub_matched ?m 4" "grp ?m 4 = ''add''"
    "functions (ctx (initial [])) ''add'' = None"
    by (simp_all add: sub_matched_def grp_def initial_def)
  have b: "run noHelpers 0 (map trim []) (initial []) = Inr (initial [])"
    "executing (initial [])" "functions (ctx (initial [])) ''foo'' = None"
    by (simp_all add: executing_def initial_def)
  have c: "''foo'' \<noteq> []" "list_all isword ''foo''" "list_all notparen []"
    "trim ''  print--f-foo()! '' = callLine ''foo'' []"
    "to_string (length ([]::string list) + 1) = ''1''" "to_string 9 = ''9''"
    "callLine ''foo'' [] = ''print--f-foo()!''"
    by code_simp+
  have d: "inFunction ?fs" "\<not> inFunction ?sk" "ifStack ?sk \<noteq> []" "skipping (hd (ifStack ?sk))"
    by (simp_all add: initial_def)
  show ?thesis
    using undefined_function_fatal [where h = noHelpers and m = ?m and cx = "ctx (initial [])"
        and n = 9 and w = "io (initial [])" and name = "''foo''" and args = "[]" and fpre = "[]"
        and inp = "[]" and st = "initial []" and l = "''  print--f-foo()! ''" and fpost = "[]"
        and fs = ?fs and sk = ?sk and i = 1]
      a b c d
    by (simp add: initial_def)
qed

subsection \<open>Unrecognized lines and the end of the input\<close>

text \<open>
  A line that no pattern accepts, standing where the innermost frame is skipping, is
  passed over in silence. In the program below \<^verbatim>\<open>x === 5\<close> is such a line whatever the
  evaluator answers to \<^verbatim>\<open>1 === 1\<close>: it is in the branch of an \<^verbatim>\<open>elif-\<close> whose condition is
  the one of the \<^verbatim>\<open>if-\<close> before it. No syntax error is reported and the status is 0.
\<close>

theorem syntax_error_skipped_counterexample:
  "\<forall>h inp. runLines h [''if- 1 === 1 the'', ''elif- 1 === 1 the'', ''x === 5'', ''end--''] inp
      = (case evaluateCondition h Map.empty ''1'' ''==='' ''1'' of
           None \<Rightarrow> HelperFailure
         | Some r \<Rightarrow> Exit 0 \<lparr>cin = inp, cout = [], cerr = []\<rparr>)"
proof (intro allI)
  fix h inp
  have m: "regex_match funRegex ''if- 1 === 1 the'' = None"
    "startsWith ''if- 1 === 1 the'' ''if-''"
    "regex_match ifRe ''if- 1 === 1 the'' = Some [(3, ''1''), (2, ''===''), (1, ''1'')]"
    "regex_match funRegex ''elif- 1 === 1 the'' = None"
    "startsWith ''elif- 1 === 1 the'' ''if-'' = False"
    "startsWith ''elif- 1 === 1 the'' ''elif-''"
    "regex_match elifRe ''elif- 1 === 1 the'' = Some [(3, ''1''), (2, ''===''), (1, ''1'')]"
    "regex_match funRegex ''x === 5'' = None"
    "startsWith ''x === 5'' ''if-'' = False"
    "startsWith ''x === 5'' ''elif-'' = False"
    "regex_match funRegex ''end--'' = None"
    "startsWith ''end--'' ''if-'' = False"
    "startsWith ''end--'' ''elif-'' = False"
    "map trim [''if- 1 === 1 the'', ''elif- 1 === 1 the'', ''x === 5'', ''end--'']
       = [''if- 1 === 1 the'', ''elif- 1 === 1 the'', ''x === 5'', ''end--'']"
    by code_simp+
  show "runLines h [''if- 1 === 1 the'', ''elif- 1 === 1 the'', ''x === 5'', ''end--''] inp
      = (case evaluateCondition h Map.empty ''1'' ''==='' ''1'' of
           None \<Rightarrow> HelperFailure
         | Some r \<Rightarrow> Exit 0 \<lparr>cin = inp, cout = [], cerr = []\<rparr>)"
    unfolding runLines_def m
    by (simp add: m initial_def step_def ifLine_def elifLine_def endLine_def grp_def
        split: option.splits)
qed

lemma xeq5:
  "''x === 5'' \<noteq> []" "unrecognized ''x === 5''" "trim ''x === 5'' = ''x === 5''"
  unfolding unrecognized_def by code_simp+

text \<open>
  C9, as the code has it. The first line that is not empty once trimmed, that the loop
  reaches where it executes statements (no function body is being collected and the
  innermost frame is not skipping) and that no test of the loop accepts, ends the process
  with status 1 after \<^verbatim>\<open>Syntax error at line N: <the trimmed line>\<close> on the error stream,
  \<open>N\<close> counting the lines of the file from 1. The line \<^verbatim>\<open>x === 5\<close> is such a line. A run
  that reaches the end of the lines ends with status 0. A line that no test accepts and
  that the loop reaches, outside the collection of a function body, while the innermost
  frame is skipping is passed over: the state of the run, console included, stays as it
  was.
\<close>

theorem syntax_error_first_unrecognized:
  "(run h 0 (map trim fpre) (initial inp) = Inr st \<and> executing st
      \<and> trim l \<noteq> [] \<and> unrecognized (trim l)
    \<longrightarrow> runLines h (fpre @ l # fpost) inp
          = Exit 1 ((io st)\<lparr>cerr := cerr (io st) @ ''Syntax error at line ''
                        @ to_string (length fpre + 1) @ '': '' @ trim l @ endl\<rparr>))
   \<and> unrecognized ''x === 5''
   \<and> (run h 0 (map trim fl) (initial inp) = Inr st' \<longrightarrow> runLines h fl inp = Exit 0 (io st'))
   \<and> (run h 0 (map trim fpre) (initial inp) = Inr sk \<and> \<not> inFunction sk
        \<and> ifStack sk \<noteq> [] \<and> skipping (hd (ifStack sk)) \<and> unrecognized (trim l)
      \<longrightarrow> run h 0 (map trim (fpre @ [l])) (initial inp) = Inr sk)"
proof (intro conjI impI)
  assume a: "run h 0 (map trim fpre) (initial inp) = Inr st \<and> executing st
      \<and> trim l \<noteq> [] \<and> unrecognized (trim l)"
  then have "step h (length fpre) (trim l) st
      = Inl (Exit 1 ((io st)\<lparr>cerr := cerr (io st) @ ''Syntax error at line ''
                        @ to_string (length fpre + 1) @ '': '' @ trim l @ endl\<rparr>))"
    by (intro step_unrecognized) simp_all
  with a show "runLines h (fpre @ l # fpost) inp
          = Exit 1 ((io st)\<lparr>cerr := cerr (io st) @ ''Syntax error at line ''
                        @ to_string (length fpre + 1) @ '': '' @ trim l @ endl\<rparr>)"
    by (intro runLines_at) simp_all
next
  show "unrecognized ''x === 5''" by (rule xeq5)
next
  assume "run h 0 (map trim fl) (initial inp) = Inr st'"
  then show "runLines h fl inp = Exit 0 (io st')"
    by (rule runLines_end)
next
  assume a: "run h 0 (map trim fpre) (initial inp) = Inr sk \<and> \<not> inFunction sk
        \<and> ifStack sk \<noteq> [] \<and> skipping (hd (ifStack sk)) \<and> unrecognized (trim l)"
  then have "step h (length fpre) (trim l) sk = Inr sk"
    by (auto simp: step_def unrecognized_def)
  with a show "run h 0 (map trim (fpre @ [l])) (initial inp) = Inr sk"
    by (simp add: run_append)
qed

lemma print_a_line:
  \<open>trim ''print--"a"!'' = ''print--"a"!''\<close>
  \<open>regex_match funRegex ''print--"a"!'' = None\<close>
  \<open>startsWith ''print--"a"!'' ''if-'' = False\<close>
  \<open>startsWith ''print--"a"!'' ''elif-'' = False\<close>
  \<open>regex_match locRegex ''print--"a"!'' = None\<close>
  \<open>regex_match inputRegex ''print--"a"!'' = None\<close>
  \<open>regex_match assignRegex ''print--"a"!'' = None\<close>
  \<open>regex_match printRegex ''print--"a"!'' = Some [(1, ''"a"''), (2, ''a'')]\<close>
  by code_simp+

lemma if_12_lines:
  "trim ''if- 1 === 2 the'' = ''if- 1 === 2 the''"
  "startsWith ''if- 1 === 2 the'' ''if-''"
  "regex_match ifRe ''if- 1 === 2 the'' = Some [(3, ''2''), (2, ''===''), (1, ''1'')]"
  "to_string (length [''if- 1 === 2 the'', ''if- 1 === 1 the''] + 1) = ''3''"
  by code_simp+

theorem syntax_error_first_unrecognized_witness:
  \<open>run noHelpers 0 (map trim [''print--"a"!'']) (initial [])
       = Inr ((initial [])\<lparr>io := \<lparr>cin = [], cout = ''a'' @ endl, cerr = []\<rparr>\<rparr>)
   \<and> executing ((initial [])\<lparr>io := \<lparr>cin = [], cout = ''a'' @ endl, cerr = []\<rparr>\<rparr>)
   \<and> trim ''x === 5'' \<noteq> [] \<and> unrecognized (trim ''x === 5'')
   \<and> runLines noHelpers [''print--"a"!'', ''x === 5'', ''print--"b"!''] []
        = Exit 1 \<lparr>cin = [], cout = ''a'' @ endl, cerr = ''Syntax error at line 2: x === 5'' @ endl\<rparr>
   \<and> runLines noHelpers [''print--"a"!''] [] = Exit 0 \<lparr>cin = [], cout = ''a'' @ endl, cerr = []\<rparr>
   \<and> run (noHelpers\<lparr>evaluateCondition := \<lambda>vs a op b. Some (a = b)\<rparr>) 0
         (map trim [''if- 1 === 2 the'']) (initial [])
       = Inr ((initial [])\<lparr>ifStack := [\<lparr>matched = False, skipping = True\<rparr>]\<rparr>)
   \<and> \<not> inFunction ((initial [])\<lparr>ifStack := [\<lparr>matched = False, skipping = True\<rparr>]\<rparr>)
   \<and> skipping (hd (ifStack ((initial [])\<lparr>ifStack := [\<lparr>matched = False, skipping = True\<rparr>]\<rparr>)))
   \<and> run (noHelpers\<lparr>evaluateCondition := \<lambda>vs a op b. Some (a = b)\<rparr>) 0
         (map trim [''if- 1 === 2 the'', ''x === 5'']) (initial [])
       = Inr ((initial [])\<lparr>ifStack := [\<lparr>matched = False, skipping = True\<rparr>]\<rparr>)
   \<and> run (noHelpers\<lparr>evaluateCondition := \<lambda>vs a op b. Some (a = b)\<rparr>) 0
         (map trim [''if- 1 === 2 the'', ''if- 1 === 1 the'']) (initial [])
       = Inr ((initial [])\<lparr>ifStack := [\<lparr>matched = True, skipping = False\<rparr>,
                                          \<lparr>matched = False, skipping = True\<rparr>]\<rparr>)
   \<and> runLines (noHelpers\<lparr>evaluateCondition := \<lambda>vs a op b. Some (a = b)\<rparr>)
         [''if- 1 === 2 the'', ''if- 1 === 1 the'', ''x === 5'', ''end--'', ''end--''] []
       = Exit 1 \<lparr>cin = [], cout = [], cerr = ''Syntax error at line 3: x === 5'' @ endl\<rparr>\<close>
proof -
  let ?st = "(initial [])\<lparr>io := \<lparr>cin = [], cout = ''a'' @ endl, cerr = []\<rparr>\<rparr>"
  let ?h = "noHelpers\<lparr>evaluateCondition := \<lambda>vs a op b. Some (a = b)\<rparr>"
  let ?sk = "(initial [])\<lparr>ifStack := [\<lparr>matched = False, skipping = True\<rparr>]\<rparr>"
  let ?in = "(initial [])\<lparr>ifStack := [\<lparr>matched = True, skipping = False\<rparr>,
                                          \<lparr>matched = False, skipping = True\<rparr>]\<rparr>"
  have a: \<open>run noHelpers 0 (map trim [''print--"a"!'']) (initial []) = Inr ?st\<close>
    by (simp add: print_a_line step_def simpleConstruct_def processPrint_def handled_def
        sub_matched_def grp_def initial_def)
  have b: "executing ?st" by (simp add: executing_def initial_def)
  have c: "trim ''x === 5'' \<noteq> []" "unrecognized (trim ''x === 5'')"
    by (simp_all add: xeq5)
  have e: \<open>to_string (length [''print--"a"!''] + 1) = ''2''\<close> by code_simp
  have f: "run ?h 0 (map trim [''if- 1 === 2 the'']) (initial []) = Inr ?sk"
    by (simp add: if_12_lines step_if ifLine_def grp_def initial_def)
  have g: "\<not> inFunction ?sk" "ifStack ?sk \<noteq> []" "skipping (hd (ifStack ?sk))"
    by (simp_all add: initial_def)
  have i: "run ?h 0 (map trim [''if- 1 === 2 the'', ''if- 1 === 1 the'']) (initial []) = Inr ?in"
    by (simp add: if_12_lines cond_lines step_if ifLine_def grp_def initial_def)
  have j: "executing ?in" by (simp add: executing_def initial_def)
  show ?thesis
    using syntax_error_first_unrecognized
      [where h = noHelpers and fpre = \<open>[''print--"a"!'']\<close> and inp = "[]" and st = ?st
         and l = "''x === 5''" and fpost = \<open>[''print--"b"!'']\<close> and fl = \<open>[''print--"a"!'']\<close>
         and st' = ?st]
      syntax_error_first_unrecognized
      [where h = ?h and fpre = "[''if- 1 === 2 the'']" and inp = "[]" and sk = ?sk
         and l = "''x === 5''"]
      syntax_error_first_unrecognized
      [where h = ?h and fpre = "[''if- 1 === 2 the'', ''if- 1 === 1 the'']" and inp = "[]"
         and st = ?in and l = "''x === 5''" and fpost = "[''end--'', ''end--'']"]
      a b c e f g i j if_12_lines(4)
    by (simp add: xeq5 initial_def)
qed

lemma collecting_to_end:
  "inFunction st \<Longrightarrow> ''}'' \<notin> set lns \<Longrightarrow>
     \<exists>st'. run h i lns st = Inr st' \<and> inFunction st' \<and> ctx st' = ctx st \<and> io st' = io st
        \<and> ifStack st' = ifStack st"
proof (induction lns arbitrary: i st)
  case Nil
  then show ?case by simp
next
  case (Cons ln lns)
  from Cons.prems have "ln \<noteq> ''}''" by auto
  with Cons.prems(1) obtain st1 where s: "step h i ln st = Inr st1" "inFunction st1"
    "ctx st1 = ctx st" "io st1 = io st" "ifStack st1 = ifStack st"
    by (simp add: step_collecting)
  from Cons.prems have "''}'' \<notin> set lns" by simp
  from Cons.IH [OF s(2) this, of "Suc i"] s show ?case by auto
qed

text \<open>
  C10. When the lines end while a function body is being collected (no line \<^verbatim>\<open>}\<close>
  after the header), nothing is reported: the status is 0, the console is as it was at
  the header, and the function table is the one from before the header, so the
  function is not committed. When the lines end while conditional frames are open, the
  status is 0 as well.
\<close>

theorem eof_in_function_or_open_frame:
  "(run h 0 (map trim fpre) (initial inp) = Inr st \<and> inFunction st
      \<and> ''}'' \<notin> set (map trim fbody)
     \<longrightarrow> runLines h (fpre @ fbody) inp = Exit 0 (io st)
         \<and> (\<exists>st'. run h 0 (map trim (fpre @ fbody)) (initial inp) = Inr st'
               \<and> functions (ctx st') = functions (ctx st)))
   \<and> (run h 0 (map trim fl) (initial inp) = Inr fin \<and> ifStack fin \<noteq> []
     \<longrightarrow> runLines h fl inp = Exit 0 (io fin))"
proof (intro conjI impI)
  assume a: "run h 0 (map trim fpre) (initial inp) = Inr st \<and> inFunction st
      \<and> ''}'' \<notin> set (map trim fbody)"
  then obtain st' where s: "run h (0 + length (map trim fpre)) (map trim fbody) st = Inr st'"
    "ctx st' = ctx st" "io st' = io st"
    using collecting_to_end [of st "map trim fbody" h] by blast
  with a have r: "run h 0 (map trim (fpre @ fbody)) (initial inp) = Inr st'"
    by (simp add: run_append)
  with s show "runLines h (fpre @ fbody) inp = Exit 0 (io st)"
    by (simp add: runLines_def)
  from r s show "\<exists>st'. run h 0 (map trim (fpre @ fbody)) (initial inp) = Inr st'
               \<and> functions (ctx st') = functions (ctx st)"
    by simp
next
  assume "run h 0 (map trim fl) (initial inp) = Inr fin \<and> ifStack fin \<noteq> []"
  then show "runLines h fl inp = Exit 0 (io fin)"
    by (simp add: runLines_end)
qed

lemma header_f_line:
  "trim ''funS int f(): {'' = ''funS int f(): {''"
  "regex_match funRegex ''funS int f(): {'' = Some [(3, []), (2, ''f''), (1, ''int'')]"
  "parseParams [] = []"
  "trim ''print--f-f()!'' = ''print--f-f()!''"
  "trim ''  '' = []"
  by code_simp+

lemma if_1_line:
  "trim ''if- 1 === 1 the'' = ''if- 1 === 1 the''"
  "regex_match funRegex ''if- 1 === 1 the'' = None"
  "startsWith ''if- 1 === 1 the'' ''if-''"
  "regex_match ifRe ''if- 1 === 1 the'' = Some [(3, ''1''), (2, ''===''), (1, ''1'')]"
  by code_simp+

theorem eof_in_function_or_open_frame_witness:
  "run noHelpers 0 (map trim [''funS int f(): {'']) (initial [])
      = Inr ((initial [])\<lparr>inFunction := True, currentFuncName := ''f'',
               currentFunc := \<lparr>returnType = ''int'', params = [], body = []\<rparr>\<rparr>)
   \<and> inFunction ((initial [])\<lparr>inFunction := True, currentFuncName := ''f'',
               currentFunc := \<lparr>returnType = ''int'', params = [], body = []\<rparr>\<rparr>)
   \<and> ''}'' \<notin> set (map trim [''print--f-f()!'', ''  ''])
   \<and> runLines noHelpers [''funS int f(): {'', ''print--f-f()!'', ''  ''] []
        = Exit 0 \<lparr>cin = [], cout = [], cerr = []\<rparr>
   \<and> (\<exists>st'. run noHelpers 0 (map trim [''funS int f(): {'', ''print--f-f()!'', ''  '']) (initial [])
                = Inr st' \<and> functions (ctx st') = Map.empty)
   \<and> run (noHelpers\<lparr>evaluateCondition := \<lambda>vs a op b. Some True\<rparr>) 0
        (map trim [''if- 1 === 1 the'']) (initial [])
      = Inr ((initial [])\<lparr>ifStack := [\<lparr>matched = True, skipping = False\<rparr>]\<rparr>)
   \<and> ifStack ((initial [])\<lparr>ifStack := [\<lparr>matched = True, skipping = False\<rparr>]\<rparr>) \<noteq> []
   \<and> runLines (noHelpers\<lparr>evaluateCondition := \<lambda>vs a op b. Some True\<rparr>)
        [''if- 1 === 1 the''] [] = Exit 0 \<lparr>cin = [], cout = [], cerr = []\<rparr>"
proof -
  let ?st = "(initial [])\<lparr>inFunction := True, currentFuncName := ''f'',
               currentFunc := \<lparr>returnType = ''int'', params = [], body = []\<rparr>\<rparr>"
  let ?h = "noHelpers\<lparr>evaluateCondition := \<lambda>vs a op b. Some True\<rparr>"
  let ?fin = "(initial [])\<lparr>ifStack := [\<lparr>matched = True, skipping = False\<rparr>]\<rparr>"
  have a: "run noHelpers 0 (map trim [''funS int f(): {'']) (initial []) = Inr ?st"
    by (simp add: header_f_line step_def openFunction_def grp_def initial_def)
  have b: "inFunction ?st" by simp
  have c: "''}'' \<notin> set (map trim [''print--f-f()!'', ''  ''])"
    by (simp add: header_f_line)
  have d: "run ?h 0 (map trim [''if- 1 === 1 the'']) (initial []) = Inr ?fin"
    by (simp add: if_1_line step_def ifLine_def grp_def initial_def)
  have e: "ifStack ?fin \<noteq> []" by simp
  show ?thesis
    using eof_in_function_or_open_frame
      [of noHelpers "[''funS int f(): {'']" "[]" ?st "[''print--f-f()!'', ''  '']"]
      eof_in_function_or_open_frame
      [where h = ?h and inp = "[]" and fl = "[''if- 1 === 1 the'']" and fin = ?fin]
      a b c d e
    by (simp add: initial_def)
qed

subsection \<open>When a condition is evaluated\<close>

text \<open>
  The program \<^verbatim>\<open>if- 1 === 1 the\<close>, \<^verbatim>\<open>elif- 2 === 2 the\<close>, \<^verbatim>\<open>end--\<close> under any helpers: the
  answer to \<^verbatim>\<open>2 === 2\<close> is asked for only when the answer to \<^verbatim>\<open>1 === 1\<close> was false. In
  particular, under an evaluator that answers true when the left operand is \<^verbatim>\<open>1\<close> and
  fails on every other call, the run ends with status 0, while a program that starts
  with \<^verbatim>\<open>if- 2 === 2 the\<close> ends in that failure: after a branch that matched, the
  condition of the \<^verbatim>\<open>elif-\<close> line is not evaluated.
\<close>

theorem elif_after_match_counterexample:
  "(\<forall>h inp. runLines h [''if- 1 === 1 the'', ''elif- 2 === 2 the'', ''end--''] inp
       = (case evaluateCondition h Map.empty ''1'' ''==='' ''1'' of
            None \<Rightarrow> HelperFailure
          | Some r \<Rightarrow>
              if r then Exit 0 \<lparr>cin = inp, cout = [], cerr = []\<rparr>
              else (case evaluateCondition h Map.empty ''2'' ''==='' ''2'' of
                      None \<Rightarrow> HelperFailure
                    | Some r' \<Rightarrow> Exit 0 \<lparr>cin = inp, cout = [], cerr = []\<rparr>)))
   \<and> runLines (noHelpers\<lparr>evaluateCondition := \<lambda>vs a op b. if a = ''1'' then Some True else None\<rparr>)
       [''if- 1 === 1 the'', ''elif- 2 === 2 the'', ''end--''] []
     = Exit 0 \<lparr>cin = [], cout = [], cerr = []\<rparr>
   \<and> runLines (noHelpers\<lparr>evaluateCondition := \<lambda>vs a op b. if a = ''1'' then Some True else None\<rparr>)
       [''if- 2 === 2 the''] []
     = HelperFailure"
  by (simp add: runLines_def cond_lines step_if step_elif step_end initial_def ifLine_def
      elifLine_def endLine_def grp_def split: option.splits)

text \<open>
  C2, as the code has it. Outside the collection of a function body, a line that starts
  with \<^verbatim>\<open>if-\<close> and has the form of a condition has its condition evaluated at that
  point, whether or not the innermost frame is skipping. A line that starts with
  \<^verbatim>\<open>elif-\<close> has its condition evaluated when no earlier branch of its chain has matched;
  when one has, the line is neither parsed nor evaluated and the frame becomes matched
  and skipping, whatever the evaluator is.
\<close>

theorem condition_evaluated_when:
  "(\<not> inFunction st \<and> startsWith ln ''if-'' \<and> regex_match ifRe ln = Some m
      \<longrightarrow> step h i ln st =
           (case evaluateCondition h (variables (ctx st)) (grp m 1) (grp m 2) (grp m 3) of
              None \<Rightarrow> Inl HelperFailure
            | Some r \<Rightarrow> Inr (st\<lparr>ifStack := \<lparr>matched = r, skipping = \<not> r\<rparr> # ifStack st\<rparr>)))
   \<and> (\<not> inFunction st \<and> startsWith ln ''elif-'' \<and> ifStack st = tp # stk \<and> \<not> matched tp
        \<and> regex_match elifRe ln = Some m
      \<longrightarrow> step h i ln st =
           (case evaluateCondition h (variables (ctx st)) (grp m 1) (grp m 2) (grp m 3) of
              None \<Rightarrow> Inl HelperFailure
            | Some r \<Rightarrow> Inr (st\<lparr>ifStack := \<lparr>matched = r, skipping = \<not> r\<rparr> # stk\<rparr>)))
   \<and> (\<not> inFunction st \<and> startsWith ln ''elif-'' \<and> ifStack st = tp # stk \<and> matched tp
      \<longrightarrow> step h i ln st = Inr (st\<lparr>ifStack := \<lparr>matched = True, skipping = True\<rparr> # stk\<rparr>))"
  by (simp add: step_if step_elif ifLine_def elifLine_def)

theorem condition_evaluated_when_witness:
  "\<not> inFunction ((initial [])\<lparr>ifStack := [\<lparr>matched = False, skipping = True\<rparr>]\<rparr>)
   \<and> startsWith ''if- 1 === 1 the'' ''if-''
   \<and> regex_match ifRe ''if- 1 === 1 the'' = Some [(3, ''1''), (2, ''===''), (1, ''1'')]
   \<and> step (noHelpers\<lparr>evaluateCondition := \<lambda>vs a op b. Some True\<rparr>) 0 ''if- 1 === 1 the''
        ((initial [])\<lparr>ifStack := [\<lparr>matched = False, skipping = True\<rparr>]\<rparr>)
      = Inr ((initial [])\<lparr>ifStack := [\<lparr>matched = True, skipping = False\<rparr>,
                                         \<lparr>matched = False, skipping = True\<rparr>]\<rparr>)
   \<and> startsWith ''elif- 1 === 1 the'' ''elif-''
   \<and> regex_match elifRe ''elif- 1 === 1 the'' = Some [(3, ''1''), (2, ''===''), (1, ''1'')]
   \<and> step (noHelpers\<lparr>evaluateCondition := \<lambda>vs a op b. Some True\<rparr>) 0 ''elif- 1 === 1 the''
        ((initial [])\<lparr>ifStack := [\<lparr>matched = False, skipping = True\<rparr>]\<rparr>)
      = Inr ((initial [])\<lparr>ifStack := [\<lparr>matched = True, skipping = False\<rparr>]\<rparr>)
   \<and> step noHelpers 0 ''elif- 1 === 1 the''
        ((initial [])\<lparr>ifStack := [\<lparr>matched = True, skipping = False\<rparr>]\<rparr>)
      = Inr ((initial [])\<lparr>ifStack := [\<lparr>matched = True, skipping = True\<rparr>]\<rparr>)"
proof -
  let ?h = "noHelpers\<lparr>evaluateCondition := \<lambda>vs a op b. Some True\<rparr>"
  let ?m = "[(3, ''1''), (2, ''===''), (1, ''1'')] :: smatch"
  let ?skip = "(initial [])\<lparr>ifStack := [\<lparr>matched = False, skipping = True\<rparr>]\<rparr>"
  let ?done = "(initial [])\<lparr>ifStack := [\<lparr>matched = True, skipping = False\<rparr>]\<rparr>"
  have a: "\<not> inFunction ?skip" "\<not> inFunction ?done"
    "ifStack ?skip = \<lparr>matched = False, skipping = True\<rparr> # []"
    "ifStack ?done = \<lparr>matched = True, skipping = False\<rparr> # []"
    by (simp_all add: initial_def)
  show ?thesis
    using condition_evaluated_when
        [where h = ?h and st = ?skip and ln = "''if- 1 === 1 the''" and m = ?m and i = 0]
      condition_evaluated_when
        [where h = ?h and st = ?skip and ln = "''elif- 1 === 1 the''" and m = ?m and i = 0
           and tp = "\<lparr>matched = False, skipping = True\<rparr>" and stk = "[]"]
      condition_evaluated_when
        [where h = noHelpers and st = ?done and ln = "''elif- 1 === 1 the''" and i = 0
           and tp = "\<lparr>matched = True, skipping = False\<rparr>" and stk = "[]"]
      a
    by (simp add: cond_lines initial_def grp_def)
qed

subsection \<open>The type of a variable\<close>

lemma loc_str_line:
  "regex_match funRegex ''loc x = str(a)!'' = None"
  "startsWith ''loc x = str(a)!'' ''if-'' = False"
  "startsWith ''loc x = str(a)!'' ''elif-'' = False"
  "regex_match locRegex ''loc x = str(a)!'' = Some [(3, ''a''), (2, ''str''), (1, ''x'')]"
  by code_simp+

lemma loc_bool_line:
  "regex_match funRegex ''loc x = bool(true)!'' = None"
  "startsWith ''loc x = bool(true)!'' ''if-'' = False"
  "startsWith ''loc x = bool(true)!'' ''elif-'' = False"
  "regex_match locRegex ''loc x = bool(true)!'' = Some [(3, ''true''), (2, ''bool''), (1, ''x'')]"
  by code_simp+

lemma input_str_line:
  \<open>regex_match funRegex ''x = input--str-"p"!'' = None\<close>
  \<open>startsWith ''x = input--str-"p"!'' ''if-'' = False\<close>
  \<open>startsWith ''x = input--str-"p"!'' ''elif-'' = False\<close>
  \<open>regex_match locRegex ''x = input--str-"p"!'' = None\<close>
  \<open>regex_match inputRegex ''x = input--str-"p"!'' = Some [(3, ''p''), (2, ''str''), (1, ''x'')]\<close>
  by code_simp+

lemma trims:
  "trim ''a'' = ''a''" "trim ''true'' = ''true''" "unquote ''a'' = ''a''"
  by code_simp+

text \<open>
  A second declaration of \<^verbatim>\<open>x\<close> changes its type from \<^verbatim>\<open>str\<close> to \<^verbatim>\<open>bool\<close>, and an input
  statement changes the type of a \<^verbatim>\<open>bool\<close> variable to \<^verbatim>\<open>str\<close>, whatever the helpers are.
\<close>

theorem type_changes_counterexample:
  \<open>\<forall>h. (case run h 0 [''loc x = str(a)!''] (initial []) of
          Inl e \<Rightarrow> False
        | Inr st \<Rightarrow> map_option var_type (variables (ctx st) ''x'') = Some ''str'')
     \<and> (case run h 0 [''loc x = str(a)!'', ''loc x = bool(true)!''] (initial []) of
          Inl e \<Rightarrow> False
        | Inr st \<Rightarrow> map_option var_type (variables (ctx st) ''x'') = Some ''bool'')
     \<and> (case run h 0 [''loc x = bool(true)!''] (initial [''hello'']) of
          Inl e \<Rightarrow> False
        | Inr st \<Rightarrow> map_option var_type (variables (ctx st) ''x'') = Some ''bool'')
     \<and> (case run h 0 [''loc x = bool(true)!'', ''x = input--str-"p"!''] (initial [''hello'']) of
          Inl e \<Rightarrow> False
        | Inr st \<Rightarrow> map_option var_type (variables (ctx st) ''x'') = Some ''str'')\<close>
  by (simp add: step_simple executing_def initial_def simpleConstruct_def loc_str_line
      loc_bool_line input_str_line processLoc_def processInput_def handled_def grp_def
      setVar_def trims)

lemma processAssign_type:
  assumes "processAssign h cx m n w = Inr (cx', w')"
  shows "map_option var_type (variables cx' x) = map_option var_type (variables cx x)"
  using assms
  by (auto simp: processAssign_def setVar_def Let_def split: option.splits if_splits)

lemma processLoc_type:
  assumes "processLoc h cx m n w = Inr (cx', w')"
  shows "map_option var_type (variables cx' (grp m 1)) = Some (grp m 2)"
    and "x \<noteq> grp m 1 \<Longrightarrow> variables cx' x = variables cx x"
  using assms
  by (auto simp: processLoc_def setVar_def Let_def split: option.splits if_splits)

lemma processInput_type:
  assumes "processInput cx m n w = Inr (cx', w')"
  shows "map_option var_type (variables cx' (grp m 1))
           = Some (if grp m 2 = ''i'' then ''int'' else ''str'')"
    and "x \<noteq> grp m 1 \<Longrightarrow> variables cx' x = variables cx x"
  using assms
  by (auto simp: processInput_def setVar_def Let_def split: option.splits if_splits)

lemma processAssign_frame:
  assumes "processAssign h cx m n w = Inr (cx', w')"
  shows "x = grp m 1 \<or> variables cx' x = variables cx x"
  using assms
  by (auto simp: processAssign_def setVar_def Let_def split: option.splits if_splits)

text \<open>
  C3, as the code has it. An assignment changes the type of no variable: after
  \<^verbatim>\<open>processAssign\<close> every name has the type it had, or is still undeclared, and every
  variable but the assigned one is as it was. A declaration gives the variable it names
  the type it states, and an input statement gives it the type \<^verbatim>\<open>int\<close> (for \<^verbatim>\<open>i\<close>) or
  \<^verbatim>\<open>str\<close>, whatever type the name had before; both leave every other variable as it was.
\<close>

theorem type_after_statement:
  "(processAssign h cx m n w = Inr (cx', w')
      \<longrightarrow> map_option var_type (variables cx' x) = map_option var_type (variables cx x)
          \<and> (x = grp m 1 \<or> variables cx' x = variables cx x))
   \<and> (processLoc h cx m n w = Inr (cx', w')
      \<longrightarrow> map_option var_type (variables cx' (grp m 1)) = Some (grp m 2)
          \<and> (x = grp m 1 \<or> variables cx' x = variables cx x))
   \<and> (processInput cx m n w = Inr (cx', w')
      \<longrightarrow> map_option var_type (variables cx' (grp m 1))
             = Some (if grp m 2 = ''i'' then ''int'' else ''str'')
          \<and> (x = grp m 1 \<or> variables cx' x = variables cx x))"
  using processAssign_type [of h cx m n w cx' w' x] processAssign_frame [of h cx m n w cx' w' x]
    processLoc_type(1) [of h cx m n w cx' w'] processLoc_type(2) [of h cx m n w cx' w' x]
    processInput_type(1) [of cx m n w cx' w'] processInput_type(2) [of cx m n w cx' w' x]
  by blast

theorem type_after_statement_witness:
  \<open>processAssign noHelpers
       (setVar (setVar \<lparr>functions = Map.empty, variables = Map.empty\<rparr> ''y'' ''int'' ''7'') ''x'' ''str'' ''a'')
       [(2, ''"b"''), (1, ''x'')] 2 \<lparr>cin = [], cout = [], cerr = []\<rparr>
     = Inr (setVar (setVar (setVar \<lparr>functions = Map.empty, variables = Map.empty\<rparr> ''y'' ''int'' ''7'')
                      ''x'' ''str'' ''a'') ''x'' ''str'' ''b'',
            \<lparr>cin = [], cout = [], cerr = []\<rparr>)
   \<and> map_option var_type
        (variables (setVar (setVar (setVar \<lparr>functions = Map.empty, variables = Map.empty\<rparr> ''y'' ''int'' ''7'')
                      ''x'' ''str'' ''a'') ''x'' ''str'' ''b'') ''x'')
      = Some ''str''
   \<and> variables (setVar (setVar (setVar \<lparr>functions = Map.empty, variables = Map.empty\<rparr> ''y'' ''int'' ''7'')
                      ''x'' ''str'' ''a'') ''x'' ''str'' ''b'') ''y''
      = Some \<lparr>var_type = ''int'', var_value = ''7''\<rparr>
   \<and> processLoc noHelpers (setVar \<lparr>functions = Map.empty, variables = Map.empty\<rparr> ''x'' ''str'' ''a'')
       [(3, ''true''), (2, ''bool''), (1, ''x'')] 2 \<lparr>cin = [], cout = [], cerr = []\<rparr>
     = Inr (setVar \<lparr>functions = Map.empty, variables = Map.empty\<rparr> ''x'' ''bool'' ''true'',
            \<lparr>cin = [], cout = [], cerr = []\<rparr>)
   \<and> map_option var_type
        (variables (setVar \<lparr>functions = Map.empty, variables = Map.empty\<rparr> ''x'' ''bool'' ''true'') ''x'')
      = Some ''bool''
   \<and> processInput (setVar \<lparr>functions = Map.empty, variables = Map.empty\<rparr> ''x'' ''bool'' ''true'')
       [(3, ''p''), (2, ''i''), (1, ''x'')] 2 \<lparr>cin = [''42''], cout = [], cerr = []\<rparr>
     = Inr (setVar \<lparr>functions = Map.empty, variables = Map.empty\<rparr> ''x'' ''int'' ''42'',
            \<lparr>cin = [], cout = ''p'', cerr = []\<rparr>)
   \<and> map_option var_type
        (variables (setVar \<lparr>functions = Map.empty, variables = Map.empty\<rparr> ''x'' ''int'' ''42'') ''x'')
      = Some ''int''\<close>
proof -
  let ?e = \<open>\<lparr>functions = Map.empty, variables = Map.empty\<rparr>\<close>
  let ?w = \<open>\<lparr>cin = [], cout = [], cerr = []\<rparr>\<close>
  let ?c0 = \<open>setVar (setVar ?e ''y'' ''int'' ''7'') ''x'' ''str'' ''a''\<close>
  have v: \<open>trim ''"b"'' = ''"b"''\<close> \<open>unquote ''"b"'' = ''b''\<close> \<open>trim ''true'' = ''true''\<close>
    \<open>stoll ''42'' = Some 42\<close>
    by code_simp+
  have a: \<open>processAssign noHelpers ?c0 [(2, ''"b"''), (1, ''x'')] 2 ?w
     = Inr (setVar ?c0 ''x'' ''str'' ''b'', ?w)\<close>
    by (simp add: processAssign_def setVar_def grp_def v)
  have b: \<open>processLoc noHelpers (setVar ?e ''x'' ''str'' ''a'')
       [(3, ''true''), (2, ''bool''), (1, ''x'')] 2 ?w
     = Inr (setVar ?e ''x'' ''bool'' ''true'', ?w)\<close>
    by (simp add: processLoc_def setVar_def grp_def v)
  have c: \<open>processInput (setVar ?e ''x'' ''bool'' ''true'')
       [(3, ''p''), (2, ''i''), (1, ''x'')] 2 \<lparr>cin = [''42''], cout = [], cerr = []\<rparr>
     = Inr (setVar ?e ''x'' ''int'' ''42'', \<lparr>cin = [], cout = ''p'', cerr = []\<rparr>)\<close>
    by (simp add: processInput_def setVar_def grp_def v)
  show ?thesis
    using type_after_statement [where h = noHelpers and x = "''x''"
        and cx = ?c0 and m = \<open>[(2, ''"b"''), (1, ''x'')]\<close>
        and n = 2 and w = ?w and cx' = \<open>setVar ?c0 ''x'' ''str'' ''b''\<close> and w' = ?w]
      type_after_statement [where h = noHelpers and x = "''y''"
        and cx = ?c0 and m = \<open>[(2, ''"b"''), (1, ''x'')]\<close>
        and n = 2 and w = ?w and cx' = \<open>setVar ?c0 ''x'' ''str'' ''b''\<close> and w' = ?w]
      type_after_statement [where h = noHelpers and x = "''x''"
        and cx = \<open>setVar ?e ''x'' ''str'' ''a''\<close> and m = \<open>[(3, ''true''), (2, ''bool''), (1, ''x'')]\<close>
        and n = 2 and w = ?w and cx' = \<open>setVar ?e ''x'' ''bool'' ''true''\<close> and w' = ?w]
      type_after_statement [where x = "''x''"
        and cx = \<open>setVar ?e ''x'' ''bool'' ''true''\<close> and m = \<open>[(3, ''p''), (2, ''i''), (1, ''x'')]\<close>
        and n = 2 and w = \<open>\<lparr>cin = [''42''], cout = [], cerr = []\<rparr>\<close>
        and cx' = \<open>setVar ?e ''x'' ''int'' ''42''\<close> and w' = \<open>\<lparr>cin = [], cout = ''p'', cerr = []\<rparr>\<close>]
      a b c
    by (simp add: grp_def setVar_def)
qed

subsection \<open>The function table\<close>

lemma fun_lines:
  "regex_match funRegex ''funS int f(): {'' = Some [(3, []), (2, ''f''), (1, ''int'')]"
  "regex_match funRegex ''funS str f(): {'' = Some [(3, []), (2, ''f''), (1, ''str'')]"
  "parseParams [] = []"
  by code_simp+

text \<open>
  Two definitions of \<^verbatim>\<open>f\<close>, one after the other: after the first the table holds the
  first, after the second it holds the second.
\<close>

theorem redefinition_counterexample:
  "\<forall>h. (case run h 0 [''funS int f(): {'', ''return 1!'', ''}''] (initial []) of
          Inl e \<Rightarrow> False
        | Inr st \<Rightarrow> functions (ctx st) ''f''
            = Some \<lparr>returnType = ''int'', params = [], body = [''return 1!'']\<rparr>)
     \<and> (case run h 0 [''funS int f(): {'', ''return 1!'', ''}'',
                       ''funS str f(): {'', ''return 2!'', ''}''] (initial []) of
          Inl e \<Rightarrow> False
        | Inr st \<Rightarrow> functions (ctx st) ''f''
            = Some \<lparr>returnType = ''str'', params = [], body = [''return 2!'']\<rparr>)"
  by (simp add: step_def initial_def fun_lines openFunction_def grp_def)

lemma handlers_functions:
  "processLoc h cx m n w = Inr (cx', w') \<Longrightarrow> functions cx' = functions cx"
  "processAssign h cx m n w = Inr (cx', w') \<Longrightarrow> functions cx' = functions cx"
  "processInput cx m n w = Inr (cx', w') \<Longrightarrow> functions cx' = functions cx"
  "processPrint h cx m n w = Inr (cx', w') \<Longrightarrow> functions cx' = functions cx"
  by (auto simp: processLoc_def processAssign_def processInput_def processPrint_def setVar_def
      Let_def split: option.splits if_splits)

lemma handled_functions:
  assumes "handled st r = Inr st'"
    and "\<And>cx' w'. r = Inr (cx', w') \<Longrightarrow> functions cx' = functions (ctx st)"
  shows "functions (ctx st') = functions (ctx st)"
  using assms by (auto simp: handled_def split: sum.splits)

lemma simpleConstruct_functions:
  assumes "simpleConstruct h i ln st = Inr st'"
  shows "functions (ctx st') = functions (ctx st)"
  using assms
  by (auto simp: simpleConstruct_def split: option.splits
      elim!: handled_functions dest: handlers_functions)

lemma cond_functions:
  "ifLine h i ln st = Inr st' \<Longrightarrow> functions (ctx st') = functions (ctx st)"
  "elifLine h i ln st = Inr st' \<Longrightarrow> functions (ctx st') = functions (ctx st)"
  "endLine i st = Inr st' \<Longrightarrow> functions (ctx st') = functions (ctx st)"
  by (auto simp: ifLine_def elifLine_def endLine_def split: option.splits list.splits if_splits)

text \<open>
  A name that no header among the lines has named is not in the function table.
\<close>

lemma step_no_header:
  assumes "step h i ln st = Inr st'"
    and "functions (ctx st) name = None"
    and "inFunction st \<Longrightarrow> currentFuncName st \<noteq> name"
    and "\<And>m. regex_match funRegex ln = Some m \<Longrightarrow> grp m 2 \<noteq> name"
  shows "functions (ctx st') name = None \<and> (inFunction st' \<longrightarrow> currentFuncName st' \<noteq> name)"
proof (cases "ln = [] \<or> inFunction st")
  case True
  with assms show ?thesis by (auto simp: step_def split: if_splits)
next
  case False
  show ?thesis
  proof (cases "regex_match funRegex ln")
    case (Some m)
    with False assms show ?thesis by (auto simp: step_def openFunction_def)
  next
    case None
    from None False assms(1) have "functions (ctx st') = functions (ctx st)"
      by (auto simp: step_def split: if_splits dest: cond_functions simpleConstruct_functions)
    moreover from None False assms(1) have "inFunction st' = inFunction st"
      by (auto simp: step_def simpleConstruct_def handled_def ifLine_def elifLine_def endLine_def
          split: if_splits option.splits list.splits sum.splits)
    ultimately show ?thesis using False assms(2) by simp
  qed
qed

lemma run_no_header:
  assumes "run h i lns st = Inr st'"
    and "functions (ctx st) name = None"
    and "inFunction st \<Longrightarrow> currentFuncName st \<noteq> name"
    and "\<And>ln m. ln \<in> set lns \<Longrightarrow> regex_match funRegex ln = Some m \<Longrightarrow> grp m 2 \<noteq> name"
  shows "functions (ctx st') name = None"
  using assms
proof (induction lns arbitrary: i st)
  case Nil
  then show ?case by simp
next
  case (Cons ln lns)
  from Cons.prems(1) obtain st1 where s: "step h i ln st = Inr st1" "run h (Suc i) lns st1 = Inr st'"
    by (auto split: sum.splits)
  have "functions (ctx st1) name = None \<and> (inFunction st1 \<longrightarrow> currentFuncName st1 \<noteq> name)"
    using s(1) Cons.prems(2,3,4) by (intro step_no_header) auto
  then show ?case
    using Cons.IH [OF s(2)] Cons.prems(4) by auto
qed

lemma no_definition_before:
  assumes "run h 0 lns (initial inp) = Inr st"
    and "\<And>ln m. ln \<in> set lns \<Longrightarrow> regex_match funRegex ln = Some m \<Longrightarrow> grp m 2 \<noteq> name"
  shows "functions (ctx st) name = None"
  using assms by (intro run_no_header [OF assms(1)]) (auto simp: initial_def)

text \<open>
  C5, as the code has it. The function table is a map, so a name has at most one
  definition. The only round of the loop that changes the table is the one on the line
  \<^verbatim>\<open>}\<close> that closes a definition: it binds the name of the header to the collected
  definition, in place of any earlier definition of that name, and leaves the
  definitions of all other names as they were.
\<close>

theorem function_table_step:
  assumes "step h i ln st = Inr st'"
  shows "functions (ctx st') =
           (if inFunction st \<and> ln = ''}''
            then (functions (ctx st))(currentFuncName st \<mapsto> currentFunc st)
            else functions (ctx st))"
proof (cases "ln = [] \<or> inFunction st")
  case True
  with assms show ?thesis by (auto simp: step_def split: if_splits)
next
  case False
  show ?thesis
  proof (cases "regex_match funRegex ln")
    case (Some m)
    with False assms show ?thesis by (auto simp: step_def openFunction_def)
  next
    case None
    with False assms show ?thesis
      by (auto simp: step_def split: if_splits
          dest: cond_functions simpleConstruct_functions)
  qed
qed

theorem function_table_step_witness:
  "step noHelpers 5 ''}''
      ((initial [])\<lparr>ctx := \<lparr>functions = [''f'' \<mapsto> \<lparr>returnType = ''int'', params = [], body = [''return 1!'']\<rparr>,
                                          ''g'' \<mapsto> \<lparr>returnType = ''int'', params = [], body = []\<rparr>],
                           variables = Map.empty\<rparr>,
                    inFunction := True, currentFuncName := ''f'',
                    currentFunc := \<lparr>returnType = ''str'', params = [], body = [''return 2!'']\<rparr>\<rparr>)
    = Inr ((initial [])\<lparr>ctx := \<lparr>functions = [''f'' \<mapsto> \<lparr>returnType = ''str'', params = [], body = [''return 2!'']\<rparr>,
                                          ''g'' \<mapsto> \<lparr>returnType = ''int'', params = [], body = []\<rparr>],
                           variables = Map.empty\<rparr>,
                    inFunction := False, currentFuncName := ''f'',
                    currentFunc := \<lparr>returnType = ''str'', params = [], body = [''return 2!'']\<rparr>\<rparr>)
   \<and> functions (ctx ((initial [])\<lparr>ctx := \<lparr>functions = [''f'' \<mapsto> \<lparr>returnType = ''str'', params = [], body = [''return 2!'']\<rparr>,
                                          ''g'' \<mapsto> \<lparr>returnType = ''int'', params = [], body = []\<rparr>],
                           variables = Map.empty\<rparr>,
                    inFunction := False, currentFuncName := ''f'',
                    currentFunc := \<lparr>returnType = ''str'', params = [], body = [''return 2!'']\<rparr>\<rparr>))
     = [''f'' \<mapsto> \<lparr>returnType = ''int'', params = [], body = [''return 1!'']\<rparr>,
        ''g'' \<mapsto> \<lparr>returnType = ''int'', params = [], body = []\<rparr>]
         (''f'' \<mapsto> \<lparr>returnType = ''str'', params = [], body = [''return 2!'']\<rparr>)"
proof -
  let ?f1 = "\<lparr>returnType = ''int'', params = [], body = [''return 1!'']\<rparr>"
  let ?f2 = "\<lparr>returnType = ''str'', params = [], body = [''return 2!'']\<rparr>"
  let ?g = "\<lparr>returnType = ''int'', params = [], body = []\<rparr>"
  let ?st = "(initial [])\<lparr>ctx := \<lparr>functions = [''f'' \<mapsto> ?f1, ''g'' \<mapsto> ?g], variables = Map.empty\<rparr>,
                    inFunction := True, currentFuncName := ''f'', currentFunc := ?f2\<rparr>"
  let ?st' = "(initial [])\<lparr>ctx := \<lparr>functions = [''f'' \<mapsto> ?f2, ''g'' \<mapsto> ?g], variables = Map.empty\<rparr>,
                    inFunction := False, currentFuncName := ''f'', currentFunc := ?f2\<rparr>"
  have a: "step noHelpers 5 ''}'' ?st = Inr ?st'"
    by (auto simp: step_def initial_def)
  show ?thesis
    using function_table_step [OF a] a
    by (simp add: initial_def)
qed

subsection \<open>Names that are not declared\<close>

lemma print_x_line:
  "regex_match funRegex ''print--x!'' = None"
  "startsWith ''print--x!'' ''if-'' = False"
  "startsWith ''print--x!'' ''elif-'' = False"
  "regex_match locRegex ''print--x!'' = None"
  "regex_match inputRegex ''print--x!'' = None"
  "regex_match assignRegex ''print--x!'' = None"
  "regex_match printRegex ''print--x!'' = Some [(3, ''x'')]"
  by code_simp+

lemma assign_y_line:
  "regex_match funRegex ''y = 1!'' = None"
  "startsWith ''y = 1!'' ''if-'' = False"
  "startsWith ''y = 1!'' ''elif-'' = False"
  "regex_match locRegex ''y = 1!'' = None"
  "regex_match inputRegex ''y = 1!'' = None"
  "regex_match assignRegex ''y = 1!'' = Some [(2, ''1''), (1, ''y'')]"
  "regex_match funRegex ''print--y!'' = None"
  "startsWith ''print--y!'' ''if-'' = False"
  "startsWith ''print--y!'' ''elif-'' = False"
  "regex_match locRegex ''print--y!'' = None"
  "regex_match inputRegex ''print--y!'' = None"
  "regex_match assignRegex ''print--y!'' = None"
  "regex_match printRegex ''print--y!'' = Some [(3, ''y'')]"
  by code_simp+

text \<open>
  The name \<^verbatim>\<open>x\<close> is not declared when the input statement assigns to it. The run goes
  on: the prompt is written, the line read is stored under \<^verbatim>\<open>x\<close> and printed by the next
  statement, nothing is written to the error stream and the status is 0.
\<close>

theorem input_undeclared_counterexample:
  \<open>\<forall>h. runLines h [''x = input--str-"p"!'', ''print--x!''] [''hello'']
         = Exit 0 \<lparr>cin = [], cout = ''phello'' @ endl, cerr = []\<rparr>\<close>
proof
  fix h
  show \<open>runLines h [''x = input--str-"p"!'', ''print--x!''] [''hello'']
         = Exit 0 \<lparr>cin = [], cout = ''phello'' @ endl, cerr = []\<rparr>\<close>
    by code_simp
qed

text \<open>
  C7, as the code has it. A print of a name that is not declared writes
  \<^verbatim>\<open>Undefined variable: NAME\<close> to the error stream and goes on with the context as it
  was. An assignment to a name that is not declared ends the process with status 1 and
  \<^verbatim>\<open>Error at line N: Undefined variable: NAME\<close>. An input statement on a name that is not
  declared is not fatal either: for the kind \<^verbatim>\<open>str\<close> it declares the name with the line
  read.
\<close>

theorem undeclared_names:
  "(\<not> sub_matched m 2 \<and> sub_matched m 3 \<and> variables cx (grp m 3) = None
      \<longrightarrow> processPrint h cx m n w
           = Inr (cx, w\<lparr>cerr := cerr w @ ''Undefined variable: '' @ grp m 3 @ endl\<rparr>))
   \<and> (variables cx (grp m 1) = None
      \<longrightarrow> processAssign h cx m n w
           = Inl (Exit 1 (w\<lparr>cerr := cerr w @ ''Error at line '' @ to_string n
                              @ '': Undefined variable: '' @ grp m 1 @ endl\<rparr>)))
   \<and> (variables cx (grp m 1) = None \<and> grp m 2 = ''str''
      \<longrightarrow> processInput cx m n w
           = Inr (setVar cx (grp m 1) ''str'' (case cin w of [] \<Rightarrow> [] | l # ls \<Rightarrow> l),
                  w\<lparr>cin := drop 1 (cin w), cout := cout w @ grp m 3\<rparr>))"
  by (simp add: processPrint_def processAssign_def processInput_def errorAndExit_def)

theorem undeclared_names_witness:
  "\<not> sub_matched [(3, ''y'')] 2 \<and> sub_matched [(3, ''y'')] 3
   \<and> variables (ctx (initial [])) (grp [(3, ''y'')] 3) = None
   \<and> step noHelpers 0 ''print--y!'' (initial [])
      = Inr ((initial [])\<lparr>io := \<lparr>cin = [], cout = [], cerr = ''Undefined variable: y'' @ endl\<rparr>\<rparr>)
   \<and> variables (ctx (initial [])) (grp [(2, ''1''), (1, ''y'')] 1) = None
   \<and> step noHelpers 0 ''y = 1!'' (initial [])
      = Inl (Exit 1 \<lparr>cin = [], cout = [], cerr = ''Error at line 1: Undefined variable: y'' @ endl\<rparr>)
   \<and> grp [(3, ''p''), (2, ''str''), (1, ''y'')] 2 = ''str''
   \<and> processInput (ctx (initial [])) [(3, ''p''), (2, ''str''), (1, ''y'')] 1
         \<lparr>cin = [''hello''], cout = [], cerr = []\<rparr>
      = Inr (setVar (ctx (initial [])) ''y'' ''str'' ''hello'', \<lparr>cin = [], cout = ''p'', cerr = []\<rparr>)"
proof -
  have a: "\<not> sub_matched [(3, ''y'')] 2" "sub_matched [(3, ''y'')] 3"
    "variables (ctx (initial [])) (grp [(3, ''y'')] 3) = None"
    "variables (ctx (initial [])) (grp [(2, ''1''), (1, ''y'')] 1) = None"
    "grp [(3, ''p''), (2, ''str''), (1, ''y'')] 2 = ''str''"
    "grp [(3, ''p''), (2, ''str''), (1, ''y'')] 1 = ''y''"
    "grp [(3, ''p''), (2, ''str''), (1, ''y'')] 3 = ''p''"
    "grp [(3, ''y'')] 3 = ''y''" "grp [(2, ''1''), (1, ''y'')] 1 = ''y''"
    by (simp_all add: sub_matched_def grp_def initial_def)
  have e: "executing (initial [])" by (simp add: executing_def initial_def)
  have n: "to_string (0 + 1) = ''1''" by code_simp
  have s1: "step noHelpers 0 ''print--y!'' (initial [])
      = handled (initial []) (processPrint noHelpers (ctx (initial [])) [(3, ''y'')] (0 + 1) (io (initial [])))"
    by (simp add: step_simple [OF e] simpleConstruct_def assign_y_line)
  have s2: "step noHelpers 0 ''y = 1!'' (initial [])
      = handled (initial []) (processAssign noHelpers (ctx (initial [])) [(2, ''1''), (1, ''y'')] (0 + 1) (io (initial [])))"
    by (simp add: step_simple [OF e] simpleConstruct_def assign_y_line)
  show ?thesis
    unfolding s1 s2
    using undeclared_names [where h = noHelpers and cx = "ctx (initial [])" and m = "[(3, ''y'')]"
        and n = "0 + 1" and w = "io (initial [])"]
      undeclared_names [where h = noHelpers and cx = "ctx (initial [])"
        and m = "[(2, ''1''), (1, ''y'')]" and n = "0 + 1" and w = "io (initial [])"]
      undeclared_names [where cx = "ctx (initial [])"
        and m = "[(3, ''p''), (2, ''str''), (1, ''y'')]" and n = 1
        and w = "\<lparr>cin = [''hello''], cout = [], cerr = []\<rparr>"]
      a n
    by (simp add: handled_def initial_def)
qed

subsection \<open>A conditional inside a skipped branch\<close>

text \<open>
  Once a frame is matched and skipping, the lines of the rest of its chain leave the
  state as it is, whatever the helpers are, as long as none of them is a function header
  or opens a conditional of its own: the \<^verbatim>\<open>elif-\<close> lines put the same frame back and the
  statement lines are passed over.
\<close>

lemma step_in_skipped_chain:
  assumes "\<not> inFunction st"
    and "ifStack st = \<lparr>matched = True, skipping = True\<rparr> # stk"
    and "regex_match funRegex ln = None" "\<not> startsWith ln ''if-''" "ln \<noteq> ''end--''"
  shows "step h i ln st = Inr st"
proof (cases "startsWith ln ''elif-''")
  case True
  with assms(1,2) show ?thesis by (simp add: step_elif elifLine_def)
next
  case False
  with assms show ?thesis by (simp add: step_def)
qed

lemma run_in_skipped_chain:
  assumes "\<not> inFunction st"
    and "ifStack st = \<lparr>matched = True, skipping = True\<rparr> # stk"
    and "\<forall>ln \<in> set lns. regex_match funRegex ln = None \<and> \<not> startsWith ln ''if-'' \<and> ln \<noteq> ''end--''"
  shows "run h i lns st = Inr st"
  using assms(3)
proof (induction lns arbitrary: i)
  case Nil
  show ?case by simp
next
  case (Cons ln lns)
  from Cons.prems have "step h i ln st = Inr st"
    by (intro step_in_skipped_chain [OF assms(1,2)]) auto
  with Cons show ?case by simp
qed

lemma nested_lines:
  \<open>trim ''print--"A"!'' = ''print--"A"!''\<close>
  \<open>trim ''print--"B"!'' = ''print--"B"!''\<close>
  \<open>regex_match funRegex ''print--"A"!'' = None\<close>
  \<open>startsWith ''print--"A"!'' ''if-'' = False\<close>
  \<open>startsWith ''print--"A"!'' ''elif-'' = False\<close>
  \<open>regex_match locRegex ''print--"A"!'' = None\<close>
  \<open>regex_match inputRegex ''print--"A"!'' = None\<close>
  \<open>regex_match assignRegex ''print--"A"!'' = None\<close>
  \<open>regex_match printRegex ''print--"A"!'' = Some [(1, ''"A"''), (2, ''A'')]\<close>
  \<open>regex_match funRegex ''print--"B"!'' = None\<close>
  \<open>startsWith ''print--"B"!'' ''if-'' = False\<close>
  \<open>startsWith ''print--"B"!'' ''elif-'' = False\<close>
  \<open>regex_match locRegex ''print--"B"!'' = None\<close>
  \<open>regex_match inputRegex ''print--"B"!'' = None\<close>
  \<open>regex_match assignRegex ''print--"B"!'' = None\<close>
  \<open>regex_match printRegex ''print--"B"!'' = Some [(1, ''"B"''), (2, ''B'')]\<close>
  by code_simp+

text \<open>
  C1 at a program with a conditional inside the second branch. All conditions are the
  same, \<^verbatim>\<open>1 === 1\<close>. When the evaluator answers true, the first branch runs and prints
  \<^verbatim>\<open>A\<close>, the \<^verbatim>\<open>elif-\<close> branch is marked as skipping, and yet the \<^verbatim>\<open>if-\<close> inside it pushes a
  frame of its own that is not skipping: \<^verbatim>\<open>B\<close>, a line of the second branch, is printed
  too.
\<close>

theorem nested_if_in_skipped_branch:
  \<open>runLines h [''if- 1 === 1 the'', ''print--"A"!'', ''elif- 1 === 1 the'',
                 ''if- 1 === 1 the'', ''print--"B"!'', ''end--'', ''end--''] inp
     = (case evaluateCondition h Map.empty ''1'' ''==='' ''1'' of
          None \<Rightarrow> HelperFailure
        | Some r \<Rightarrow> Exit 0 \<lparr>cin = inp,
                             cout = (if r then ''A'' @ endl @ ''B'' @ endl else []),
                             cerr = []\<rparr>)\<close>
proof (cases "evaluateCondition h Map.empty ''1'' ''==='' ''1''")
  case None
  then show ?thesis
    by (simp add: runLines_def nested_lines cond_lines step_if initial_def ifLine_def grp_def)
next
  case (Some r)
  show ?thesis
  proof (cases r)
    case True
    with Some show ?thesis
      by (simp add: runLines_def nested_lines cond_lines step_if step_elif step_end
          step_statement initial_def ifLine_def elifLine_def endLine_def grp_def
          simpleConstruct_def processPrint_def sub_matched_def handled_def)
  next
    case False
    with Some show ?thesis
      by (simp add: runLines_def nested_lines cond_lines step_if step_elif step_end
          step_statement initial_def ifLine_def elifLine_def endLine_def grp_def)
  qed
qed

subsection \<open>The stored text of a value\<close>

lemma input_i_line:
  \<open>regex_match funRegex ''x = input--i-"n"!'' = None\<close>
  \<open>startsWith ''x = input--i-"n"!'' ''if-'' = False\<close>
  \<open>startsWith ''x = input--i-"n"!'' ''elif-'' = False\<close>
  \<open>regex_match locRegex ''x = input--i-"n"!'' = None\<close>
  \<open>regex_match inputRegex ''x = input--i-"n"!'' = Some [(3, ''n''), (2, ''i''), (1, ''x'')]\<close>
  \<open>stoll ''12abc'' = Some 12\<close>
  \<open>reparseable \<lparr>var_type = ''int'', var_value = ''12abc''\<rparr> = False\<close>
  by code_simp+

lemma arr_assign_lines:
  \<open>regex_match funRegex ''loc a = arr(x)!'' = None\<close>
  \<open>startsWith ''loc a = arr(x)!'' ''if-'' = False\<close>
  \<open>startsWith ''loc a = arr(x)!'' ''elif-'' = False\<close>
  \<open>regex_match locRegex ''loc a = arr(x)!'' = Some [(3, ''x''), (2, ''arr''), (1, ''a'')]\<close>
  \<open>trim ''x'' = ''x''\<close>
  \<open>joinFrom 0 (map (\<lambda>item. unquote (trim item)) (getlines CHR '','' ''x'')) = ''x''\<close>
  \<open>regex_match funRegex ''a = "p" , "q"!'' = None\<close>
  \<open>startsWith ''a = "p" , "q"!'' ''if-'' = False\<close>
  \<open>startsWith ''a = "p" , "q"!'' ''elif-'' = False\<close>
  \<open>regex_match locRegex ''a = "p" , "q"!'' = None\<close>
  \<open>regex_match inputRegex ''a = "p" , "q"!'' = None\<close>
  \<open>regex_match assignRegex ''a = "p" , "q"!'' = Some [(2, ''"p" , "q"''), (1, ''a'')]\<close>
  \<open>unquote (trim ''"p" , "q"'') = ''p" , "q''\<close>
  \<open>reparseable \<lparr>var_type = ''arr'', var_value = ''p" , "q''\<rparr> = False\<close>
  by code_simp+

text \<open>
  C4 at two programs. The first reads the line \<^verbatim>\<open>12abc\<close> for \<^verbatim>\<open>x = input--i-"n"!\<close>:
  \<^verbatim>\<open>std::stoll\<close> accepts it (it reads \<^verbatim>\<open>12\<close> and ignores the rest), and the line is stored
  as it was read under the type \<^verbatim>\<open>int\<close>. The second assigns \<^verbatim>\<open>"p" , "q"\<close> to an array:
  the assignment strips the outer pair of quotes and stores the rest, with the inner
  quotes and the spaces around the comma. Neither stored text has the form the
  invariant asks of its type.
\<close>

theorem stored_text_not_reparseable:
  \<open>(case run h 0 [''x = input--i-"n"!''] (initial [''12abc'']) of
      Inl e \<Rightarrow> False
    | Inr st \<Rightarrow> variables (ctx st) ''x'' = Some \<lparr>var_type = ''int'', var_value = ''12abc''\<rparr>)
   \<and> \<not> reparseable \<lparr>var_type = ''int'', var_value = ''12abc''\<rparr>
   \<and> (case run h 0 [''loc a = arr(x)!'', ''a = "p" , "q"!''] (initial []) of
      Inl e \<Rightarrow> False
    | Inr st \<Rightarrow> variables (ctx st) ''a'' = Some \<lparr>var_type = ''arr'', var_value = ''p" , "q''\<rparr>)
   \<and> \<not> reparseable \<lparr>var_type = ''arr'', var_value = ''p" , "q''\<rparr>\<close>
  by (simp add: step_simple executing_def initial_def simpleConstruct_def input_i_line
      arr_assign_lines processInput_def processLoc_def processAssign_def handled_def grp_def
      setVar_def)

end
